theory Spec2Isabelle
  imports Complex_Main
begin

section \<open>Common conventions\<close>

text \<open>
  JavaScript numbers are modelled as \<^typ>\<open>real\<close> (times in milliseconds, energy, hull,
  shield, coordinates) and as \<^typ>\<open>int\<close> where the source only ever holds integers
  (wave numbers, counters). Callbacks are modelled by a flag (is a callback registered?)
  and a log of the arguments of every invocation, in order. \<open>Math.random()\<close> is modelled
  by a roll source \<open>rolls :: nat \<Rightarrow> real\<close>: the \<open>k\<close>-th call made by an operation returns
  \<open>rolls k\<close>. Three.js meshes, particle effects, sounds and console output are not modelled.
\<close>

type_synonym vec3 = "real \<times> real \<times> real"

definition rolls_const :: "real \<Rightarrow> nat \<Rightarrow> real" where
  "rolls_const r k = r"

section \<open>Wave manager (combat/waveManager.js)\<close>

datatype EnemyType = VANGUARD | HUNTER | COWARD

record WaveConfig =
  wave :: int
  enemies :: "EnemyType list"
  spawnDelay :: real
  bossWave :: bool

text \<open>
  An enemy of the roster: its identity, its type and its health. \<open>Enemy.update\<close>,
  \<open>canAttack\<close> and \<open>attack\<close> never write \<open>health\<close> (only \<open>takeDamage\<close> does), so
  position, velocity and AI state are left out.
\<close>

record Enemy =
  eid :: nat
  etype :: EnemyType
  health :: real

record WaveManager =
  currentWave :: int
  enemiesRemaining :: int
  activeEnemies :: "Enemy list"
  timeSinceLastSpawn :: real
  wmSpawnDelay :: real
  waveConfigs :: "WaveConfig list"
  enemiesToSpawn :: "EnemyType list option"
  onWaveComplete :: bool
  onEnemyKilled :: bool
  totalKills :: int
  nextEnemyId :: nat
  waveCompleteCalls :: "int list"
  enemyKilledCalls :: "Enemy list"

text \<open>The type bands of \<open>generateNormalWaveEnemies\<close> for one roll.\<close>

definition normalWaveType :: "int \<Rightarrow> real \<Rightarrow> EnemyType" where
  "normalWaveType w roll =
     (if w < 3 then (if roll < 7 / 10 then COWARD else HUNTER)
      else if w < 7 then
        (if roll < 3 / 10 then COWARD else if roll < 7 / 10 then HUNTER else VANGUARD)
      else
        (if roll < 2 / 10 then COWARD else if roll < 5 / 10 then HUNTER else VANGUARD))"

text \<open>
  \<open>generateNormalWaveEnemies(wave, count)\<close>: the loop \<open>for (i = 0; i < count; i++)\<close>
  pushes one type per iteration; the first argument of the loop function is the number of
  iterations left, \<open>k\<close> the number of rolls already drawn.
\<close>

fun normalWaveLoop :: "nat \<Rightarrow> int \<Rightarrow> (nat \<Rightarrow> real) \<Rightarrow> nat \<Rightarrow> EnemyType list" where
  "normalWaveLoop 0 w rolls k = []"
| "normalWaveLoop (Suc n) w rolls k = normalWaveType w (rolls k) # normalWaveLoop n w rolls (Suc k)"

definition generateNormalWaveEnemies :: "int \<Rightarrow> int \<Rightarrow> (nat \<Rightarrow> real) \<Rightarrow> nat \<Rightarrow> EnemyType list" where
  "generateNormalWaveEnemies w count rolls k = normalWaveLoop (nat count) w rolls k"

text \<open>
  The Fisher-Yates loop of \<open>generateBossWaveEnemies\<close>, \<open>for (i = length - 1; i > 0; i--)\<close>,
  with \<open>j = floor(random * (i + 1))\<close>. \<open>Math.random()\<close> lies in \<open>[0, 1)\<close>, so \<open>j \<le> i\<close> in
  the source; the model bounds \<open>j\<close> by \<open>i\<close> so that a roll outside that interval stays
  inside the list.
\<close>

fun shuffleLoop :: "nat \<Rightarrow> (nat \<Rightarrow> real) \<Rightarrow> nat \<Rightarrow> 'a list \<Rightarrow> 'a list" where
  "shuffleLoop 0 rolls k xs = xs"
| "shuffleLoop (Suc i) rolls k xs =
     (let j = min (Suc i) (nat \<lfloor>rolls k * real (Suc i + 1)\<rfloor>)
      in shuffleLoop i rolls (Suc k) (xs[Suc i := xs ! j, j := xs ! Suc i]))"

text \<open>
  \<open>Math.floor(count * 0.5)\<close> and \<open>Math.floor(count * 0.3)\<close> are \<open>count div 2\<close> and
  \<open>(3 * count) div 10\<close> for the counts the table passes (7, 11, 15 and 19).
\<close>

definition generateBossWaveEnemies :: "int \<Rightarrow> int \<Rightarrow> (nat \<Rightarrow> real) \<Rightarrow> nat \<Rightarrow> EnemyType list" where
  "generateBossWaveEnemies w count rolls k =
     (let vanguardCount = count div 2;
          hunterCount = (3 * count) div 10;
          cowardCount = count - vanguardCount - hunterCount;
          es = replicate (nat vanguardCount) VANGUARD @ replicate (nat hunterCount) HUNTER
               @ replicate (nat cowardCount) COWARD
      in shuffleLoop (length es - 1) rolls k es)"

text \<open>
  \<open>generateWaveConfigs\<close>: the loop \<open>for (i = 1; i <= 20; i++)\<close>. The first argument is
  the number of iterations left; \<open>Math.floor(i * 0.8)\<close> is \<open>(4 * i) div 5\<close>. A normal wave
  draws \<open>baseCount\<close> rolls, a boss wave \<open>baseCount - 1\<close> (one per shuffle step).
\<close>

fun waveConfigsLoop :: "nat \<Rightarrow> int \<Rightarrow> (nat \<Rightarrow> real) \<Rightarrow> nat \<Rightarrow> WaveConfig list" where
  "waveConfigsLoop 0 i rolls k = []"
| "waveConfigsLoop (Suc n) i rolls k =
     (let boss = (i mod 5 = 0);
          baseCount = 3 + (4 * i) div 5;
          es = (if boss then generateBossWaveEnemies i baseCount rolls k
                else generateNormalWaveEnemies i baseCount rolls k);
          k' = (if boss then k + (nat baseCount - 1) else k + nat baseCount)
      in \<lparr>wave = i, enemies = es, spawnDelay = max 500 (2000 - real_of_int i * 75),
          bossWave = boss\<rparr> # waveConfigsLoop n (i + 1) rolls k')"

definition generateWaveConfigs :: "(nat \<Rightarrow> real) \<Rightarrow> WaveConfig list" where
  "generateWaveConfigs rolls = waveConfigsLoop 20 1 rolls 0"

text \<open>The constructor; \<open>enemiesToSpawn\<close> is not assigned there (\<open>undefined\<close>, here \<open>None\<close>).\<close>

definition newWaveManager :: "(nat \<Rightarrow> real) \<Rightarrow> WaveManager" where
  "newWaveManager rolls =
     \<lparr>currentWave = 0, enemiesRemaining = 0, activeEnemies = [], timeSinceLastSpawn = 0,
      wmSpawnDelay = 2000, waveConfigs = generateWaveConfigs rolls, enemiesToSpawn = None,
      onWaveComplete = False, onEnemyKilled = False, totalKills = 0, nextEnemyId = 0,
      waveCompleteCalls = [], enemyKilledCalls = []\<rparr>"

text \<open>\<open>this.waveConfigs[this.currentWave - 1]\<close>: \<open>undefined\<close> outside the array.\<close>

definition lookupConfig :: "WaveConfig list \<Rightarrow> int \<Rightarrow> WaveConfig option" where
  "lookupConfig cfgs idx =
     (if 0 \<le> idx \<and> idx < int (length cfgs) then Some (cfgs ! nat idx) else None)"

text \<open>
  \<open>startWave(waveNumber = null)\<close>; \<open>rolls\<close> are the values \<open>Math.random()\<close> returns
  during the call (drawn only on the endless-mode path).
\<close>

definition startWave :: "int option \<Rightarrow> (nat \<Rightarrow> real) \<Rightarrow> WaveManager \<Rightarrow> WaveManager" where
  "startWave waveNumber rolls m =
     (let cw = (case waveNumber of Some n \<Rightarrow> n | None \<Rightarrow> currentWave m + 1);
          config = (case lookupConfig (waveConfigs m) (cw - 1) of
                      Some c \<Rightarrow> c
                    | None \<Rightarrow> \<lparr>wave = cw,
                               enemies = generateNormalWaveEnemies cw (5 + cw) rolls 0,
                               spawnDelay = 500, bossWave = (cw mod 5 = 0)\<rparr>)
      in m\<lparr>currentWave := cw,
           enemiesRemaining := int (length (enemies config)),
           enemiesToSpawn := Some (enemies config),
           wmSpawnDelay := spawnDelay config,
           timeSinceLastSpawn := spawnDelay config\<rparr>)"

text \<open>\<open>Enemy.initStats\<close>: the starting health of each type.\<close>

fun initHealth :: "EnemyType \<Rightarrow> real" where
  "initHealth VANGUARD = 80"
| "initHealth HUNTER = 60"
| "initHealth COWARD = 40"

definition spawnEnemy :: "EnemyType \<Rightarrow> WaveManager \<Rightarrow> WaveManager" where
  "spawnEnemy t m =
     m\<lparr>activeEnemies := activeEnemies m @ [\<lparr>eid = nextEnemyId m, etype = t, health = initHealth t\<rparr>],
       nextEnemyId := Suc (nextEnemyId m)\<rparr>"

text \<open>\<open>Enemy.takeDamage(amount)\<close>, returning the death signal.\<close>

definition enemyTakeDamage :: "real \<Rightarrow> Enemy \<Rightarrow> Enemy \<times> bool" where
  "enemyTakeDamage amount e =
     (let e' = e\<lparr>health := health e - amount\<rparr> in (e', health e' \<le> 0))"

text \<open>A weapon hit on the enemy at index \<open>i\<close> of the roster (through the \<open>getEnemies\<close> wrapper).\<close>

definition damageEnemy :: "nat \<Rightarrow> real \<Rightarrow> WaveManager \<Rightarrow> WaveManager" where
  "damageEnemy i amount m =
     (if i < length (activeEnemies m)
      then m\<lparr>activeEnemies := (activeEnemies m)[i := fst (enemyTakeDamage amount (activeEnemies m ! i))]\<rparr>
      else m)"

text \<open>
  The spawn step of \<open>update\<close>: \<open>if (this.enemiesToSpawn && this.enemiesToSpawn.length > 0)\<close>.
\<close>

definition spawnStep :: "real \<Rightarrow> WaveManager \<Rightarrow> WaveManager" where
  "spawnStep deltaTime m =
     (case enemiesToSpawn m of
        None \<Rightarrow> m
      | Some [] \<Rightarrow> m
      | Some (t # rest) \<Rightarrow>
          (let m1 = m\<lparr>timeSinceLastSpawn := timeSinceLastSpawn m + deltaTime\<rparr>
           in if timeSinceLastSpawn m1 \<ge> wmSpawnDelay m1
              then (spawnEnemy t (m1\<lparr>enemiesToSpawn := Some rest\<rparr>))\<lparr>timeSinceLastSpawn := 0\<rparr>
              else m1))"

text \<open>
  The enemy loop of \<open>update\<close>, \<open>for (i = length - 1; i >= 0; i--)\<close>: the enemies at the
  higher indices are visited first, a dead one is spliced out and reported. The result is
  the surviving roster and the dead enemies in the order they are reported.
\<close>

fun enemyLoop :: "Enemy list \<Rightarrow> Enemy list \<times> Enemy list" where
  "enemyLoop [] = ([], [])"
| "enemyLoop (e # es) =
     (let (keep, dead) = enemyLoop es
      in if health e \<le> 0 then (keep, dead @ [e]) else (e # keep, dead))"

definition enemyStep :: "WaveManager \<Rightarrow> WaveManager" where
  "enemyStep m =
     (let (keep, dead) = enemyLoop (activeEnemies m)
      in m\<lparr>activeEnemies := keep,
           enemiesRemaining := enemiesRemaining m - int (length dead),
           totalKills := totalKills m + int (length dead),
           enemyKilledCalls := (if onEnemyKilled m then enemyKilledCalls m @ dead
                                else enemyKilledCalls m)\<rparr>)"

text \<open>\<open>isWaveComplete()\<close>; \<open>!this.enemiesToSpawn\<close> holds for \<open>undefined\<close> only.\<close>

definition isWaveComplete :: "WaveManager \<Rightarrow> bool" where
  "isWaveComplete m =
     (enemiesRemaining m \<le> 0 \<and>
      (case enemiesToSpawn m of None \<Rightarrow> True | Some q \<Rightarrow> length q = 0))"

text \<open>The completion check at the end of \<open>update\<close> (the same condition, written out there).\<close>

definition completionStep :: "WaveManager \<Rightarrow> WaveManager" where
  "completionStep m =
     (if enemiesRemaining m \<le> 0 \<and>
         (case enemiesToSpawn m of None \<Rightarrow> True | Some q \<Rightarrow> length q = 0)
      then (if onWaveComplete m
            then m\<lparr>waveCompleteCalls := waveCompleteCalls m @ [currentWave m]\<rparr>
            else m)
      else m)"

text \<open>
  \<open>update(deltaTime, player, weapons)\<close>: its effect on the wave bookkeeping and on the
  callbacks. \<open>updateProjectiles\<close> moves the enemies' shots and damages the player; it reads
  and writes nothing of the wave bookkeeping and is left out. \<open>Enemy.update\<close>, called for
  every enemy of the roster before the death test, also moves the enemy and writes the
  position of its mesh; that effect of the same call is \<open>updateMeshes\<close> below, on the
  mesh store the weapons read.
\<close>

definition update :: "real \<Rightarrow> WaveManager \<Rightarrow> WaveManager" where
  "update deltaTime m = completionStep (enemyStep (spawnStep deltaTime m))"

text \<open>A run of \<open>update\<close> calls with the given frame times, no other call in between.\<close>

fun updates :: "real list \<Rightarrow> WaveManager \<Rightarrow> WaveManager" where
  "updates [] m = m"
| "updates (dt # dts) m = updates dts (update dt m)"

text \<open>
  \<open>getEnemies()\<close>: one wrapper per enemy of the roster, built afresh at every call. The
  wrapper copies the mesh reference and the hit radius (30 for every enemy) and closes over
  the enemy for \<open>takeDamage\<close>. A mesh is named by the identity of its enemy.
\<close>

record EnemyRef =
  mesh :: "nat option"
  hitRadius :: real
  enemyOf :: nat

definition getEnemies :: "WaveManager \<Rightarrow> EnemyRef list" where
  "getEnemies m = map (\<lambda>e. \<lparr>mesh = Some (eid e), hitRadius = 30, enemyOf = eid e\<rparr>) (activeEnemies m)"

section \<open>Hand tracker (handTracking.js)\<close>

datatype Gesture =
  IDLE | THRUST | BRAKE | AIM | FIRE_PRIMARY | FIRE_SECONDARY | BARREL_ROLL | BOOST | SHIELD

text \<open>The fields of the result of \<open>analyzeHand\<close> that the classifier and the aim update read.\<close>

record HandData =
  palmCenter :: vec3
  isPinching :: bool
  isFist :: bool
  isOpenPalm :: bool
  isPointing :: bool
  indexTip :: "real \<times> real"

record HandTracker =
  leftHand :: "HandData option"
  rightHand :: "HandData option"
  currentGesture :: Gesture
  previousGesture :: Gesture
  smoothingFactor :: real
  aimPosition :: "real \<times> real"
  smoothAimPosition :: "real \<times> real"
  onGestureChange :: bool
  gestureChangeCalls :: "(Gesture \<times> Gesture) list"

definition newHandTracker :: HandTracker where
  "newHandTracker =
     \<lparr>leftHand = None, rightHand = None, currentGesture = IDLE, previousGesture = IDLE,
      smoothingFactor = 1 / 2, aimPosition = (1 / 2, 1 / 2), smoothAimPosition = (1 / 2, 1 / 2),
      onGestureChange = False, gestureChangeCalls = []\<rparr>"

text \<open>
  The three blocks of \<open>detectGesture\<close> that end in \<open>return\<close>: \<open>Some g\<close> is "assign
  \<open>g\<close> to \<open>currentGesture\<close> and return", \<open>None\<close> is "fall through to the next block".
\<close>

definition twoHandGesture :: "HandData \<Rightarrow> HandData \<Rightarrow> Gesture option" where
  "twoHandGesture l r =
     (let handDistance = \<bar>fst (palmCenter l) - fst (palmCenter r)\<bar>
      in if handDistance > 4 / 10 \<and> isOpenPalm l \<and> isOpenPalm r then Some BARREL_ROLL
         else if handDistance < 3 / 10 \<and> isOpenPalm l \<and> isOpenPalm r then Some BOOST
         else if handDistance < 2 / 10 \<and> isFist l \<and> isFist r then Some SHIELD
         else None)"

definition rightHandGesture :: "HandData \<Rightarrow> Gesture option" where
  "rightHandGesture r =
     (if isPinching r then Some FIRE_PRIMARY
      else if isFist r then Some BRAKE
      else if isOpenPalm r then Some THRUST
      else if isPointing r then Some AIM
      else None)"

definition leftHandGesture :: "HandData \<Rightarrow> Gesture option" where
  "leftHandGesture l = (if isPinching l then Some FIRE_SECONDARY else None)"

definition detectGesture :: "HandTracker \<Rightarrow> HandTracker" where
  "detectGesture t0 =
     (let t = t0\<lparr>previousGesture := currentGesture t0\<rparr>;
          two = (case leftHand t of
                   None \<Rightarrow> None
                 | Some l \<Rightarrow> (case rightHand t of None \<Rightarrow> None | Some r \<Rightarrow> twoHandGesture l r));
          right = (case rightHand t of None \<Rightarrow> None | Some r \<Rightarrow> rightHandGesture r);
          left = (case leftHand t of None \<Rightarrow> None | Some l \<Rightarrow> leftHandGesture l)
      in case two of
           Some g \<Rightarrow> t\<lparr>currentGesture := g\<rparr>
         | None \<Rightarrow>
            (case right of
               Some g \<Rightarrow> t\<lparr>currentGesture := g\<rparr>
             | None \<Rightarrow>
                (case left of
                   Some g \<Rightarrow> t\<lparr>currentGesture := g\<rparr>
                 | None \<Rightarrow>
                    (let t1 = t\<lparr>currentGesture := IDLE\<rparr>
                     in if currentGesture t1 \<noteq> previousGesture t1 \<and> onGestureChange t1
                        then t1\<lparr>gestureChangeCalls :=
                                  gestureChangeCalls t1 @ [(currentGesture t1, previousGesture t1)]\<rparr>
                        else t1))))"

definition clamp01 :: "real \<Rightarrow> real" where
  "clamp01 v = max 0 (min 1 v)"

definition updateAimPosition :: "HandTracker \<Rightarrow> HandTracker" where
  "updateAimPosition t =
     (let t1 = (case rightHand t of
                  None \<Rightarrow> t
                | Some r \<Rightarrow>
                   (let targetX = 1 - fst (palmCenter r);
                        targetY = fst (snd (palmCenter r))
                    in if isPointing r
                       then t\<lparr>aimPosition := (1 - fst (indexTip r), snd (indexTip r))\<rparr>
                       else t\<lparr>aimPosition := (targetX, targetY)\<rparr>));
          sx = fst (smoothAimPosition t1) +
                 (fst (aimPosition t1) - fst (smoothAimPosition t1)) * smoothingFactor t1;
          sy = snd (smoothAimPosition t1) +
                 (snd (aimPosition t1) - snd (smoothAimPosition t1)) * smoothingFactor t1
      in t1\<lparr>smoothAimPosition := (clamp01 sx, clamp01 sy)\<rparr>)"

text \<open>
  \<open>processResults\<close> for one camera frame whose hands are already told apart: store the
  hands, classify, update the aim.
\<close>

definition processResults :: "HandData option \<Rightarrow> HandData option \<Rightarrow> HandTracker \<Rightarrow> HandTracker" where
  "processResults l r t = updateAimPosition (detectGesture (t\<lparr>leftHand := l, rightHand := r\<rparr>))"

text \<open>\<open>n\<close> consecutive frames showing the same hands.\<close>

fun heldFrames :: "nat \<Rightarrow> HandData option \<Rightarrow> HandData option \<Rightarrow> HandTracker \<Rightarrow> HandTracker" where
  "heldFrames 0 l r t = t"
| "heldFrames (Suc n) l r t = processResults l r (heldFrames n l r t)"

section \<open>Player ship (ship/aurelian.js)\<close>

text \<open>
  The resource and flag state of the ship; the field \<open>hull\<close> of the source is
  \<open>shipHull\<close>. \<open>position\<close> and \<open>forward\<close> (the value of \<open>getForward()\<close>) are kept
  because the weapons read them; velocity and orientation integration are not modelled. The timers of the source are state: \<open>rollStart\<close> is the
  start time of the running roll animation, \<open>drainIntervals\<close> the live \<open>setInterval\<close>
  handles of \<open>activateShield\<close>, \<open>shieldTimeouts\<close> its pending \<open>setTimeout\<close>s (each named
  by the handle of the interval it clears). A timer firing is an operation of its own.
  One synchronous call reads one clock value \<open>now\<close> (\<open>performance.now()\<close>).
\<close>

record Ship =
  position :: vec3
  forward :: vec3
  shipHull :: real
  maxHull :: real
  shield :: real
  maxShield :: real
  energy :: real
  maxEnergy :: real
  energyRegen :: real
  isThrusting :: bool
  isBraking :: bool
  isBoosting :: bool
  isInvulnerable :: bool
  shieldActive :: bool
  rollStart :: "real option"
  drainIntervals :: "nat list"
  shieldTimeouts :: "nat list"
  nextTimer :: nat

definition newShip :: Ship where
  "newShip =
     \<lparr>position = (0, 0, 0), forward = (0, 0, -1), shipHull = 100, maxHull = 100, shield = 100,
      maxShield = 100, energy = 100, maxEnergy = 100, energyRegen = 10, isThrusting = False,
      isBraking = False, isBoosting = False, isInvulnerable = False, shieldActive = False,
      rollStart = None, drainIntervals = [], shieldTimeouts = [], nextTimer = 0\<rparr>"

text \<open>\<open>boost(dt)\<close>: the velocity change is not modelled, the energy drain is.\<close>

definition boost :: "real \<Rightarrow> Ship \<Rightarrow> Ship" where
  "boost dt s = s\<lparr>energy := energy s - 30 * dt\<rparr>"

text \<open>
  The \<open>animate\<close> closure of \<open>barrelRoll\<close>, run at clock value \<open>now\<close>: while
  \<open>progress < 1\<close> it only turns the mesh and asks for the next animation frame.
\<close>

definition rollAnimate :: "real \<Rightarrow> Ship \<Rightarrow> Ship" where
  "rollAnimate now s =
     (case rollStart s of
        None \<Rightarrow> s
      | Some startTime \<Rightarrow>
          (let elapsed = now - startTime;
               progress = min (elapsed / 500) 1
           in if progress < 1 then s else s\<lparr>isInvulnerable := False, rollStart := None\<rparr>))"

definition barrelRoll :: "real \<Rightarrow> Ship \<Rightarrow> Ship" where
  "barrelRoll now s =
     (if isInvulnerable s then s
      else if energy s < 20 then s
      else rollAnimate now (s\<lparr>isInvulnerable := True, energy := energy s - 20, rollStart := Some now\<rparr>))"

definition deactivateShield :: "Ship \<Rightarrow> Ship" where
  "deactivateShield s = s\<lparr>shieldActive := False\<rparr>"

definition activateShield :: "Ship \<Rightarrow> Ship" where
  "activateShield s =
     (if shieldActive s then s
      else if energy s < 10 then s
      else s\<lparr>shieldActive := True,
             drainIntervals := nextTimer s # drainIntervals s,
             shieldTimeouts := nextTimer s # shieldTimeouts s,
             nextTimer := Suc (nextTimer s)\<rparr>)"

text \<open>The \<open>setInterval\<close> callback of \<open>activateShield\<close> (every 100 ms while the interval lives).\<close>

definition shieldDrainTick :: "nat \<Rightarrow> Ship \<Rightarrow> Ship" where
  "shieldDrainTick i s =
     (if i \<in> set (drainIntervals s)
      then (let s1 = s\<lparr>energy := energy s - 5\<rparr>
            in if energy s1 \<le> 0
               then (deactivateShield s1)\<lparr>drainIntervals := removeAll i (drainIntervals s1)\<rparr>
               else s1)
      else s)"

text \<open>The \<open>setTimeout\<close> callback of \<open>activateShield\<close> (3000 ms after the activation).\<close>

definition shieldTimeout :: "nat \<Rightarrow> Ship \<Rightarrow> Ship" where
  "shieldTimeout i s =
     (if i \<in> set (shieldTimeouts s)
      then (deactivateShield s)\<lparr>drainIntervals := removeAll i (drainIntervals s),
                                shieldTimeouts := removeAll i (shieldTimeouts s)\<rparr>
      else s)"

text \<open>\<open>processGesture(gesture, dt)\<close>; \<open>thrust\<close> and \<open>brake\<close> change the velocity only.\<close>

definition processGesture :: "Gesture \<Rightarrow> real \<Rightarrow> real \<Rightarrow> Ship \<Rightarrow> Ship" where
  "processGesture gesture dt now s0 =
     (let s = s0\<lparr>isThrusting := False, isBraking := False, isBoosting := False\<rparr>
      in case gesture of
           THRUST \<Rightarrow> s\<lparr>isThrusting := True\<rparr>
         | BRAKE \<Rightarrow> s\<lparr>isBraking := True\<rparr>
         | BOOST \<Rightarrow> (if energy s > 20 then boost dt (s\<lparr>isBoosting := True\<rparr>) else s)
         | BARREL_ROLL \<Rightarrow> barrelRoll now s
         | SHIELD \<Rightarrow> activateShield s
         | _ \<Rightarrow> s)"

text \<open>
  \<open>update(deltaTime, gesture, aimPosition)\<close>, \<open>deltaTime\<close> in milliseconds: the gesture,
  then the energy and shield regeneration. The aim position only steers and is left out;
  \<open>now\<close> is the clock value \<open>barrelRoll\<close> reads.
\<close>

definition shipUpdate :: "real \<Rightarrow> Gesture \<Rightarrow> real \<Rightarrow> Ship \<Rightarrow> Ship" where
  "shipUpdate deltaTime gesture now s0 =
     (let dt = deltaTime * (1 / 1000);
          s1 = processGesture gesture dt now s0;
          s2 = s1\<lparr>energy := min (maxEnergy s1) (energy s1 + energyRegen s1 * dt)\<rparr>
      in if shield s2 < maxShield s2
         then s2\<lparr>shield := min (maxShield s2) (shield s2 + 5 * dt)\<rparr>
         else s2)"

text \<open>
  \<open>takeDamage(amount, hitPoint)\<close>. The result is \<open>None\<close> for the bare \<open>return\<close> of the
  invulnerable branch (\<open>undefined\<close>, which the caller reads as "not dead") and
  \<open>Some b\<close> for \<open>return this.hull <= 0\<close>. The field \<open>this.hull\<close> is \<open>shipHull\<close> here.
\<close>

definition takeDamage :: "real \<Rightarrow> Ship \<Rightarrow> Ship \<times> bool option" where
  "takeDamage amount s =
     (if isInvulnerable s then (s, None)
      else
        (let shieldDamage = min (shield s) amount;
             s1 = (if shield s > 0 then s\<lparr>shield := shield s - shieldDamage\<rparr> else s);
             amount1 = (if shield s > 0 then amount - shieldDamage else amount);
             s2 = (if amount1 > 0 then s1\<lparr>shipHull := shipHull s1 - amount1\<rparr> else s1)
         in (s2, Some (shipHull s2 \<le> 0))))"

section \<open>Weapons (ship/weapons.js)\<close>

definition vadd :: "vec3 \<Rightarrow> vec3 \<Rightarrow> vec3" where
  "vadd a b = (fst a + fst b, fst (snd a) + fst (snd b), snd (snd a) + snd (snd b))"

definition vsub :: "vec3 \<Rightarrow> vec3 \<Rightarrow> vec3" where
  "vsub a b = (fst a - fst b, fst (snd a) - fst (snd b), snd (snd a) - snd (snd b))"

definition vscale :: "vec3 \<Rightarrow> real \<Rightarrow> vec3" where
  "vscale a c = (fst a * c, fst (snd a) * c, snd (snd a) * c)"

definition vdot :: "vec3 \<Rightarrow> vec3 \<Rightarrow> real" where
  "vdot a b = fst a * fst b + fst (snd a) * fst (snd b) + snd (snd a) * snd (snd b)"

definition vlength :: "vec3 \<Rightarrow> real" where
  "vlength a = sqrt (vdot a a)"

text \<open>\<open>Vector3.normalize()\<close> divides by \<open>length() || 1\<close>.\<close>

definition vnormalize :: "vec3 \<Rightarrow> vec3" where
  "vnormalize a = vscale a (1 / (if vlength a = 0 then 1 else vlength a))"

definition distanceTo :: "vec3 \<Rightarrow> vec3 \<Rightarrow> real" where
  "distanceTo a b = vlength (vsub a b)"

datatype WeaponName = railgun | laser | harpoon

text \<open>The stat table of the constructor; no statement of the source writes these entries.\<close>

fun damage :: "WeaponName \<Rightarrow> real" where
  "damage railgun = 25"
| "damage laser = 5"
| "damage harpoon = 10"

fun cooldown :: "WeaponName \<Rightarrow> real" where
  "cooldown railgun = 200"
| "cooldown laser = 0"
| "cooldown harpoon = 3000"

fun energyCost :: "WeaponName \<Rightarrow> real" where
  "energyCost railgun = 5"
| "energyCost laser = 15"
| "energyCost harpoon = 30"

record Projectile =
  pPosition :: vec3
  pVelocity :: vec3
  pDamage :: real
  pLifetime :: real
  pCreated :: real

record Harpoon =
  hPosition :: vec3
  hVelocity :: vec3
  hDamage :: real
  hLifetime :: real
  hCreated :: real
  attached :: bool
  attachedTo :: "EnemyRef option"
  originPosition :: vec3

text \<open>
  The weapon system with the ship it refers to. \<open>lastFired\<close> is \<open>None\<close> where the stat
  table has no such entry (the laser, until \<open>firePrimary\<close> writes one); \<open>activeBeam\<close>
  tells whether the beam object exists.
\<close>

record Weapons =
  ship :: Ship
  projectiles :: "Projectile list"
  harpoons :: "Harpoon list"
  lastFired :: "WeaponName \<Rightarrow> real option"
  laserActive :: bool
  activeBeam :: bool
  currentWeapon :: WeaponName

definition newWeapons :: "Ship \<Rightarrow> Weapons" where
  "newWeapons s =
     \<lparr>ship = s, projectiles = [], harpoons = [],
      lastFired = (\<lambda>w. case w of laser \<Rightarrow> None | _ \<Rightarrow> Some 0),
      laserActive = False, activeBeam = False, currentWeapon = railgun\<rparr>"

text \<open>
  What the weapons see and touch of the enemies: the position of each mesh, and the
  \<open>takeDamage\<close> calls made through the wrappers, logged as (enemy, amount) in order.
\<close>

record Arena =
  meshPosition :: "nat \<Rightarrow> vec3"
  hits :: "(nat \<times> real) list"

definition fireRailgun :: "real \<Rightarrow> Weapons \<Rightarrow> Weapons" where
  "fireRailgun now w =
     (let fwd = forward (ship w)
      in w\<lparr>projectiles := projectiles w @
             [\<lparr>pPosition = vadd (position (ship w)) (vscale fwd 50),
               pVelocity = vscale fwd 2000, pDamage = damage railgun, pLifetime = 3000,
               pCreated = now\<rparr>]\<rparr>)"

definition fireHarpoon :: "real \<Rightarrow> Weapons \<Rightarrow> Weapons" where
  "fireHarpoon now w =
     (let fwd = forward (ship w)
      in w\<lparr>harpoons := harpoons w @
             [\<lparr>hPosition = vadd (position (ship w)) (vscale fwd 50),
               hVelocity = vscale fwd 800, hDamage = damage harpoon, hLifetime = 5000,
               hCreated = now, attached = False, attachedTo = None,
               originPosition = position (ship w)\<rparr>]\<rparr>)"

text \<open>
  \<open>firePrimary()\<close>. With \<open>lastFired\<close> undefined, \<open>now - weapon.lastFired\<close> is \<open>NaN\<close> and
  the cooldown comparison is false. The \<open>switch\<close> has the cases \<open>'railgun'\<close> and
  \<open>'harpoon'\<close> and no default.
\<close>

definition firePrimary :: "real \<Rightarrow> Weapons \<Rightarrow> Weapons \<times> bool" where
  "firePrimary now w =
     (let weapon = currentWeapon w
      in if (case lastFired w weapon of None \<Rightarrow> False | Some lf \<Rightarrow> now - lf < cooldown weapon)
         then (w, False)
         else if energy (ship w) < energyCost weapon then (w, False)
         else
           (let w1 = (case weapon of
                        railgun \<Rightarrow> fireRailgun now w
                      | harpoon \<Rightarrow> fireHarpoon now w
                      | laser \<Rightarrow> w);
                w2 = w1\<lparr>ship := (ship w1)\<lparr>energy := energy (ship w1) - energyCost weapon\<rparr>\<rparr>
            in (w2\<lparr>lastFired := (lastFired w2)(weapon := Some now)\<rparr>, True)))"

text \<open>\<open>toggleLaser(active)\<close> with \<open>createBeam\<close> and \<open>destroyBeam\<close>.\<close>

definition toggleLaser :: "bool \<Rightarrow> Weapons \<Rightarrow> Weapons" where
  "toggleLaser active w =
     (if active \<and> \<not> laserActive w
      then (if energy (ship w) < 5 then w else w\<lparr>laserActive := True, activeBeam := True\<rparr>)
      else if \<not> active \<and> laserActive w then w\<lparr>laserActive := False, activeBeam := False\<rparr>
      else w)"

text \<open>\<open>selectWeapon(weaponName)\<close> for the three names of the stat table.\<close>

definition selectWeapon :: "WeaponName \<Rightarrow> Weapons \<Rightarrow> Weapons" where
  "selectWeapon weaponName w =
     (let w1 = (if currentWeapon w = laser then toggleLaser False w else w)
      in w1\<lparr>currentWeapon := weaponName\<rparr>)"

datatype JsError = TypeError

text \<open>
  \<open>updateBeam(dt, enemies)\<close>, \<open>dt\<close> in seconds; the second component of the result is the
  exception the call throws, if any. \<open>createBeam\<close> stores the impact mesh in
  \<open>userData.impact\<close> and then assigns a new object without that key to \<open>userData\<close>, so
  \<open>updateBeam\<close> reads \<open>undefined\<close> for \<open>impact\<close>, and the statement after the ray test,
  \<open>impact.visible = ...\<close> in either branch, throws a \<open>TypeError\<close>. The ray test before it
  only yields the length the beam mesh is scaled to, and \<open>hitEnemy.takeDamage\<close> after it is
  not reached. The energy has been spent by then.
\<close>

definition updateBeam :: "real \<Rightarrow> EnemyRef list \<Rightarrow> Weapons \<Rightarrow> Weapons \<times> JsError option" where
  "updateBeam dt es w =
     (if \<not> activeBeam w \<or> \<not> laserActive w then (w, None)
      else
        (let w1 = w\<lparr>ship := (ship w)\<lparr>energy := energy (ship w) - energyCost laser * dt\<rparr>\<rparr>
         in if energy (ship w1) \<le> 0 then (toggleLaser False w1, None)
            else (w1, Some TypeError)))"

text \<open>
  The collision loop of an unattached harpoon: the first enemy of the list with a mesh
  closer than its hit radius.
\<close>

fun firstHit :: "vec3 \<Rightarrow> (nat \<Rightarrow> vec3) \<Rightarrow> EnemyRef list \<Rightarrow> EnemyRef option" where
  "firstHit p pos [] = None"
| "firstHit p pos (e # es) =
     (case mesh e of
        None \<Rightarrow> firstHit p pos es
      | Some mh \<Rightarrow> if distanceTo p (pos mh) < hitRadius e then Some e else firstHit p pos es)"

text \<open>
  The body of the loop of \<open>updateHarpoons\<close> for a harpoon whose lifetime has not expired. The
  attached branch is guarded by \<open>data.attachedTo && data.attachedTo.mesh\<close> only; the list
  \<open>enemies\<close> is not consulted there.
\<close>

definition harpoonStep :: "real \<Rightarrow> EnemyRef list \<Rightarrow> vec3 \<Rightarrow> Harpoon \<Rightarrow> Arena \<Rightarrow> Harpoon \<times> Arena" where
  "harpoonStep dt es shipPos h a =
     (if \<not> attached h
      then (let h1 = h\<lparr>hPosition := vadd (hPosition h) (vscale (hVelocity h) dt)\<rparr>
            in case firstHit (hPosition h1) (meshPosition a) es of
                 None \<Rightarrow> (h1, a)
               | Some e \<Rightarrow> (h1\<lparr>attached := True, attachedTo := Some e\<rparr>,
                            a\<lparr>hits := hits a @ [(enemyOf e, hDamage h1)]\<rparr>))
      else (case attachedTo h of
              None \<Rightarrow> (h, a)
            | Some e \<Rightarrow>
               (case mesh e of
                  None \<Rightarrow> (h, a)
                | Some mh \<Rightarrow>
                   (let h1 = h\<lparr>hPosition := meshPosition a mh\<rparr>;
                        pullDirection = vnormalize (vsub shipPos (meshPosition a mh))
                    in (h1, a\<lparr>meshPosition := (meshPosition a)
                                (mh := vadd (meshPosition a mh) (vscale pullDirection (100 * dt)))\<rparr>)))))"

text \<open>
  The loop \<open>for (i = length - 1; i >= 0; i--)\<close> of \<open>updateHarpoons\<close>: the harpoons at the
  higher indices are handled first, an expired one is spliced out.
\<close>

fun harpoonLoop :: "real \<Rightarrow> real \<Rightarrow> EnemyRef list \<Rightarrow> vec3 \<Rightarrow> Harpoon list \<Rightarrow> Arena
                   \<Rightarrow> Harpoon list \<times> Arena" where
  "harpoonLoop dt now es shipPos [] a = ([], a)"
| "harpoonLoop dt now es shipPos (h # hs) a =
     (let later = harpoonLoop dt now es shipPos hs a
      in if now - hCreated h > hLifetime h then later
         else (let stepped = harpoonStep dt es shipPos h (snd later)
               in (fst stepped # fst later, snd stepped)))"

definition updateHarpoons :: "real \<Rightarrow> real \<Rightarrow> EnemyRef list \<Rightarrow> Weapons \<times> Arena \<Rightarrow> Weapons \<times> Arena" where
  "updateHarpoons dt now es wa =
     (let r = harpoonLoop dt now es (position (ship (fst wa))) (harpoons (fst wa)) (snd wa)
      in ((fst wa)\<lparr>harpoons := fst r\<rparr>, snd r))"

text \<open>
  The resets of \<open>Game.startGame\<close> on the ship and, through \<open>Weapons.cleanup\<close>, on the
  weapons. Flags and timers are not reset there, and \<open>cleanup\<close> destroys the beam object
  without clearing \<open>laser.active\<close>.
\<close>

definition startGameReset :: "Weapons \<Rightarrow> Weapons" where
  "startGameReset w =
     w\<lparr>ship := (ship w)\<lparr>shipHull := maxHull (ship w), shield := maxShield (ship w),
                           energy := maxEnergy (ship w), position := (0, 0, 0)\<rparr>,
       projectiles := [], harpoons := [], activeBeam := False\<rparr>"

text \<open>
  The effect of \<open>WaveManager.update\<close> on the meshes. In its enemy loop \<open>enemy.update\<close> is
  called for every enemy of the roster (the one spawned in this call included) before the
  test \<open>enemy.health <= 0\<close>, so also for an enemy that dies in this call; it ends with
  \<open>this.mesh.position.copy(this.position)\<close>. The AI that computes the position is not
  modelled: \<open>newPosition i\<close> is the position this call writes to the mesh of enemy \<open>i\<close>.
  The mesh of an enemy that is no longer in the roster is not written.
\<close>

definition updateMeshes :: "(nat \<Rightarrow> vec3) \<Rightarrow> real \<Rightarrow> WaveManager \<Rightarrow> Arena \<Rightarrow> Arena" where
  "updateMeshes newPosition deltaTime m a =
     a\<lparr>meshPosition :=
         (\<lambda>i. if i \<in> set (map eid (activeEnemies (spawnStep deltaTime m)))
              then newPosition i else meshPosition a i)\<rparr>"

section \<open>Operations on the ship's energy, as a trace\<close>

text \<open>
  Every operation of the source that writes \<open>ship.energy\<close>, or a flag or timer that
  decides such a write: the per-frame ship update, the roll animation frame, the two shield
  timers, incoming damage, firing, weapon selection, the laser toggle, the beam update and
  the reset at the start of a game. An operation that throws leaves the writes it made before the throw.
\<close>

datatype Operation =
  ShipFrame real Gesture real
| RollFrame real
| DrainTick nat
| ShieldTimeout nat
| Damage real
| Fire real
| Select WeaponName
| ToggleLaser bool
| BeamFrame real "EnemyRef list"
| Restart

fun perform :: "Operation \<Rightarrow> Weapons \<Rightarrow> Weapons" where
  "perform (ShipFrame deltaTime g now) w = w\<lparr>ship := shipUpdate deltaTime g now (ship w)\<rparr>"
| "perform (RollFrame now) w = w\<lparr>ship := rollAnimate now (ship w)\<rparr>"
| "perform (DrainTick i) w = w\<lparr>ship := shieldDrainTick i (ship w)\<rparr>"
| "perform (ShieldTimeout i) w = w\<lparr>ship := shieldTimeout i (ship w)\<rparr>"
| "perform (Damage amount) w = w\<lparr>ship := fst (takeDamage amount (ship w))\<rparr>"
| "perform (Fire now) w = fst (firePrimary now w)"
| "perform (Select n) w = selectWeapon n w"
| "perform (ToggleLaser b) w = toggleLaser b w"
| "perform (BeamFrame deltaTime es) w = fst (updateBeam (deltaTime * (1 / 1000)) es w)"
| "perform Restart w = startGameReset w"

fun run :: "Operation list \<Rightarrow> Weapons \<Rightarrow> Weapons" where
  "run [] w = w"
| "run (op # ops) w = run ops (perform op w)"

definition emptyArena :: Arena where
  "emptyArena = \<lparr>meshPosition = (\<lambda>_. (0, 0, 0)), hits = []\<rparr>"

text \<open>The weapon system of a new game, on a new ship.\<close>

definition newGame :: Weapons where
  "newGame = newWeapons newShip"

text \<open>Frame times are not negative.\<close>

fun forwardTime :: "Operation \<Rightarrow> bool" where
  "forwardTime (ShipFrame deltaTime g now) = (0 \<le> deltaTime)"
| "forwardTime (BeamFrame deltaTime es) = (0 \<le> deltaTime)"
| "forwardTime _ = True"

text \<open>
  The operations that test the energy before they spend it: a ship frame of at most the
  100 ms the game loop passes (\<open>Math.min(time - lastTime, 100)\<close>), firing, and those that
  spend nothing. The shield drain tick and the beam frame subtract first and test afterwards.
\<close>

fun testsBeforeSpending :: "Operation \<Rightarrow> bool" where
  "testsBeforeSpending (ShipFrame deltaTime g now) = (0 \<le> deltaTime \<and> deltaTime \<le> 100)"
| "testsBeforeSpending (DrainTick i) = False"
| "testsBeforeSpending (BeamFrame deltaTime es) = False"
| "testsBeforeSpending _ = True"

section \<open>Invariants used in the statements\<close>

text \<open>
  The aim state every reachable tracker has: the constructor's blend factor, which no
  statement of the source writes, and a smoothed aim inside the unit square.
\<close>

definition aimWellFormed :: "HandTracker \<Rightarrow> bool" where
  "aimWellFormed t =
     (smoothingFactor t = 1 / 2 \<and>
      0 \<le> fst (smoothAimPosition t) \<and> fst (smoothAimPosition t) \<le> 1 \<and>
      0 \<le> snd (smoothAimPosition t) \<and> snd (smoothAimPosition t) \<le> 1)"

text \<open>The energy state the constructor and \<open>startGame\<close> establish.\<close>

definition energyWellFormed :: "Ship \<Rightarrow> bool" where
  "energyWellFormed s = (0 \<le> energyRegen s \<and> 0 \<le> energy s \<and> energy s \<le> maxEnergy s)"

section \<open>Properties of the wave manager\<close>

lemma length_waveConfigsLoop: "length (waveConfigsLoop n i rolls k) = n"
  by (induction n arbitrary: i k) (simp_all add: Let_def)

lemma length_generateWaveConfigs: "length (generateWaveConfigs rolls) = 20"
  by (simp add: generateWaveConfigs_def length_waveConfigsLoop)

lemma first_loop_config:
  "waveConfigsLoop (Suc n) 1 rolls 0 ! 0 =
     \<lparr>wave = 1,
      enemies = [normalWaveType 1 (rolls 0), normalWaveType 1 (rolls 1), normalWaveType 1 (rolls 2)],
      spawnDelay = 1925, bossWave = False\<rparr>"
  by (simp add: Let_def generateNormalWaveEnemies_def numeral_3_eq_3 numeral_2_eq_2)

lemma first_config:
  "lookupConfig (generateWaveConfigs rolls) 0 =
     Some \<lparr>wave = 1,
           enemies = [normalWaveType 1 (rolls 0), normalWaveType 1 (rolls 1), normalWaveType 1 (rolls 2)],
           spawnDelay = 1925, bossWave = False\<rparr>"
  using first_loop_config [of 19 rolls]
  by (simp add: generateWaveConfigs_def lookupConfig_def length_waveConfigsLoop)

lemma normalWaveLoop_map:
  "normalWaveLoop n w rolls k = map (\<lambda>i. normalWaveType w (rolls (k + i))) [0..<n]"
proof (induction n arbitrary: k)
  case 0
  show ?case by simp
next
  case (Suc n)
  have "[0..<Suc n] = 0 # map Suc [0..<n]"
    by (simp add: upt_conv_Cons map_Suc_upt del: upt_Suc)
  then show ?case using Suc.IH [of "Suc k"] by (simp add: comp_def del: upt_Suc)
qed

lemma normalWaveType_late:
  "7 \<le> w \<Longrightarrow> normalWaveType w roll =
     (if roll < 2 / 10 then COWARD else if roll < 5 / 10 then HUNTER else VANGUARD)"
  by (simp add: normalWaveType_def)

lemma startWave_endless:
  assumes "20 < n" "length (waveConfigs m) = 20"
  shows "startWave (Some n) rolls m =
     m\<lparr>currentWave := n, enemiesRemaining := 5 + n,
       enemiesToSpawn := Some (map (\<lambda>i. if rolls i < 2 / 10 then COWARD
                                         else if rolls i < 5 / 10 then HUNTER else VANGUARD)
                                 [0..<nat (5 + n)]),
       wmSpawnDelay := 500, timeSinceLastSpawn := 500\<rparr>"
proof -
  have l: "lookupConfig (waveConfigs m) (n - 1) = None"
    using assms by (simp add: lookupConfig_def)
  have w: "7 \<le> n" using assms(1) by simp
  have c: "0 \<le> 5 + n" using assms(1) by simp
  show ?thesis
    using c by (simp add: startWave_def l Let_def generateNormalWaveEnemies_def normalWaveLoop_map
        normalWaveType_late [OF w])
qed

lemma spawnStep_keeps:
  "onWaveComplete (spawnStep dt m) = onWaveComplete m"
  "currentWave (spawnStep dt m) = currentWave m"
  "waveCompleteCalls (spawnStep dt m) = waveCompleteCalls m"
  by (simp_all add: spawnStep_def spawnEnemy_def Let_def split: option.splits list.splits)

lemma enemyStep_keeps:
  "onWaveComplete (enemyStep m) = onWaveComplete m"
  "currentWave (enemyStep m) = currentWave m"
  "waveCompleteCalls (enemyStep m) = waveCompleteCalls m"
  "enemiesToSpawn (enemyStep m) = enemiesToSpawn m"
  "enemiesRemaining (enemyStep m) \<le> enemiesRemaining m"
  by (simp_all add: enemyStep_def Let_def split: prod.splits)

lemma completionStep_keeps:
  "onWaveComplete (completionStep m) = onWaveComplete m"
  "currentWave (completionStep m) = currentWave m"
  "isWaveComplete (completionStep m) = isWaveComplete m"
  by (simp_all add: completionStep_def isWaveComplete_def)

lemma completionStep_calls:
  "waveCompleteCalls (completionStep m) =
     waveCompleteCalls m @ (if onWaveComplete m \<and> isWaveComplete m then [currentWave m] else [])"
  by (simp add: completionStep_def isWaveComplete_def)

lemma update_keeps:
  "onWaveComplete (update dt m) = onWaveComplete m"
  "currentWave (update dt m) = currentWave m"
  by (simp_all add: update_def completionStep_keeps enemyStep_keeps spawnStep_keeps)

lemma update_calls:
  "waveCompleteCalls (update dt m) =
     waveCompleteCalls m @
       (if onWaveComplete m \<and> isWaveComplete (update dt m) then [currentWave m] else [])"
  by (simp add: update_def completionStep_calls completionStep_keeps enemyStep_keeps spawnStep_keeps)

lemma spawnStep_complete: "isWaveComplete m \<Longrightarrow> spawnStep dt m = m"
  by (auto simp: isWaveComplete_def spawnStep_def split: option.splits list.splits)

lemma update_isWaveComplete: "isWaveComplete m \<Longrightarrow> isWaveComplete (update dt m)"
proof -
  assume c: "isWaveComplete m"
  have "isWaveComplete (enemyStep m)"
    using c enemyStep_keeps(5) [of m] by (simp add: isWaveComplete_def enemyStep_keeps(4))
  then show ?thesis
    by (simp add: update_def spawnStep_complete [OF c] completionStep_keeps)
qed

lemma updates_calls_when_complete:
  "isWaveComplete m \<Longrightarrow> onWaveComplete m \<Longrightarrow>
   waveCompleteCalls (updates dts m) = waveCompleteCalls m @ replicate (length dts) (currentWave m)"
proof (induction dts arbitrary: m)
  case Nil
  show ?case by simp
next
  case (Cons dt dts)
  have c: "isWaveComplete (update dt m)" using Cons.prems(1) by (rule update_isWaveComplete)
  have r: "onWaveComplete (update dt m)" using Cons.prems(2) by (simp add: update_keeps)
  have "waveCompleteCalls (update dt m) = waveCompleteCalls m @ [currentWave m]"
    using c Cons.prems(2) by (simp add: update_calls)
  then show ?case using Cons.IH [OF c r] by (simp add: update_keeps replicate_app_Cons_same)
qed

lemmas wave_run_defs =
  startWave_def first_config newWaveManager_def rolls_const_def normalWaveType_def update_def
  completionStep_def enemyStep_def spawnStep_def spawnEnemy_def damageEnemy_def
  enemyTakeDamage_def isWaveComplete_def Let_def

text \<open>
  C1, as the spec states it: after \<open>startWave\<close>, the on-wave-complete callback runs exactly
  once when the spawn queue is empty and no enemy remains, and not again on later
  \<open>update\<close> calls while that stays true. The code has no such latch. Wave 1 is started on a
  fresh manager with a registered callback, its three enemies are spawned and then
  destroyed; the next two \<open>update\<close> calls both invoke the callback for wave 1.
\<close>

theorem wave_complete_fires_again:
  "waveCompleteCalls
     (update 16 (update 16
        (damageEnemy 0 40 (damageEnemy 1 40 (damageEnemy 2 40
           (updates [16, 2000, 2000]
              (startWave (Some 1) (rolls_const 0)
                 ((newWaveManager (rolls_const 0))\<lparr>onWaveComplete := True\<rparr>)))))))) = [1, 1]"
  by (simp add: wave_run_defs)

text \<open>
  C1, amended: every \<open>update\<close> call invokes the on-wave-complete callback at most once, with
  the current wave number, and does so exactly when a callback is registered and, at the end
  of that call, the spawn queue is empty and the remaining-enemy count is at most 0. So it
  is not invoked by an \<open>update\<close> before the condition holds; and once the condition holds it
  is invoked again by every further \<open>update\<close>, until \<open>startWave\<close> is called.
\<close>

theorem wave_complete_signalled_every_frame:
  "waveCompleteCalls (update dt m) =
     waveCompleteCalls m @
       (if onWaveComplete m \<and> isWaveComplete (update dt m) then [currentWave m] else [])
   \<and> (isWaveComplete m \<and> onWaveComplete m \<longrightarrow>
        waveCompleteCalls (updates dts m) =
          waveCompleteCalls m @ replicate (length dts) (currentWave m))"
  using update_calls [of dt m] updates_calls_when_complete [of m dts] by blast

text \<open>
  The amended C1 on the run above: wave 1 is cleared by the first \<open>update\<close> after the three
  kills, which signals once; three more frames signal three more times.
\<close>

theorem wave_complete_signalled_every_frame_witness:
  "isWaveComplete
     (update 16 (damageEnemy 0 40 (damageEnemy 1 40 (damageEnemy 2 40
        (updates [16, 2000, 2000]
           (startWave (Some 1) (rolls_const 0)
              ((newWaveManager (rolls_const 0))\<lparr>onWaveComplete := True\<rparr>)))))))
   \<and> onWaveComplete
     (update 16 (damageEnemy 0 40 (damageEnemy 1 40 (damageEnemy 2 40
        (updates [16, 2000, 2000]
           (startWave (Some 1) (rolls_const 0)
              ((newWaveManager (rolls_const 0))\<lparr>onWaveComplete := True\<rparr>)))))))
   \<and> waveCompleteCalls
     (updates [16, 16, 16]
        (update 16 (damageEnemy 0 40 (damageEnemy 1 40 (damageEnemy 2 40
           (updates [16, 2000, 2000]
              (startWave (Some 1) (rolls_const 0)
                 ((newWaveManager (rolls_const 0))\<lparr>onWaveComplete := True\<rparr>)))))))) = [1, 1, 1, 1]"
proof -
  let ?m = "update 16 (damageEnemy 0 40 (damageEnemy 1 40 (damageEnemy 2 40
        (updates [16, 2000, 2000]
           (startWave (Some 1) (rolls_const 0)
              ((newWaveManager (rolls_const 0))\<lparr>onWaveComplete := True\<rparr>))))))"
  have c: "isWaveComplete ?m" by (simp add: wave_run_defs)
  have r: "onWaveComplete ?m" by (simp add: wave_run_defs)
  have w: "currentWave ?m = 1" by (simp add: wave_run_defs)
  have l: "waveCompleteCalls ?m = [1]" by (simp add: wave_run_defs)
  have "waveCompleteCalls (updates [16, 16, 16] ?m) =
          waveCompleteCalls ?m @ replicate (length [16, 16, 16 :: real]) (currentWave ?m)"
    using wave_complete_signalled_every_frame [of 16 ?m "[16, 16, 16]"] c r by blast
  then have "waveCompleteCalls (updates [16, 16, 16] ?m) = [1, 1, 1, 1]"
    unfolding l w by (simp add: numeral_3_eq_3)
  with c r show ?thesis by blast
qed

text \<open>
  C8, as the spec states it: for \<open>n > 20\<close>, \<open>startWave(n)\<close> builds a wave of
  \<open>3 + floor(n * 0.8)\<close> enemies. The endless-mode branch passes \<open>5 + this.currentWave\<close>
  as the count: wave 21 has 26 enemies, not 19.
\<close>

theorem endless_wave_count_differs:
  "enemiesRemaining (startWave (Some 21) (rolls_const 0) (newWaveManager (rolls_const 0))) = 26
   \<and> 3 + \<lfloor>21 * (8 / 10 :: real)\<rfloor> = (19 :: int)"
proof -
  have "length (waveConfigs (newWaveManager (rolls_const 0))) = 20"
    by (simp add: newWaveManager_def length_generateWaveConfigs)
  from startWave_endless [OF _ this, of 21 "rolls_const 0"] show ?thesis by simp
qed

text \<open>
  C8, amended: for every wave number \<open>n > 20\<close> the table of 20 precomputed configurations
  has no entry, and \<open>startWave(n)\<close> does not fail but synthesizes a wave of \<open>5 + n\<close> enemies,
  each drawn with the late-wave bands of the normal-wave generator (roll below 0.2 Coward,
  below 0.5 Hunter, else Vanguard), with the fixed spawn delay of 500 ms; the spawn clock is
  set so that the first enemy spawns at the next update.
\<close>

theorem startWave_endless_mode:
  assumes "20 < n" and "length (waveConfigs m) = 20"
  shows "lookupConfig (waveConfigs m) (n - 1) = None
    \<and> currentWave (startWave (Some n) rolls m) = n
    \<and> enemiesRemaining (startWave (Some n) rolls m) = 5 + n
    \<and> enemiesToSpawn (startWave (Some n) rolls m) =
        Some (map (\<lambda>i. if rolls i < 2 / 10 then COWARD
                        else if rolls i < 5 / 10 then HUNTER else VANGUARD)
                [0..<nat (5 + n)])
    \<and> wmSpawnDelay (startWave (Some n) rolls m) = 500
    \<and> timeSinceLastSpawn (startWave (Some n) rolls m) = 500"
proof -
  have "lookupConfig (waveConfigs m) (n - 1) = None"
    using assms by (simp add: lookupConfig_def)
  then show ?thesis
    unfolding startWave_endless [OF assms, of rolls] by simp
qed

theorem startWave_endless_mode_witness:
  "(20 :: int) < 21
   \<and> length (waveConfigs (newWaveManager (rolls_const 0))) = 20
   \<and> enemiesRemaining (startWave (Some 21) (rolls_const 0) (newWaveManager (rolls_const 0))) = 26
   \<and> wmSpawnDelay (startWave (Some 21) (rolls_const 0) (newWaveManager (rolls_const 0))) = 500
   \<and> enemiesToSpawn (startWave (Some 21) (rolls_const 0) (newWaveManager (rolls_const 0)))
       = Some (replicate 26 COWARD)"
proof -
  have n: "(20 :: int) < 21" by simp
  have l: "length (waveConfigs (newWaveManager (rolls_const 0))) = 20"
    by (simp add: newWaveManager_def length_generateWaveConfigs)
  have "map (\<lambda>i. if rolls_const 0 i < 2 / 10 then COWARD
                  else if rolls_const 0 i < 5 / 10 then HUNTER else VANGUARD) [0..<nat (5 + 21)]
        = replicate 26 COWARD"
    by (simp add: rolls_const_def map_replicate_const)
  with startWave_endless_mode [OF n l, of "rolls_const 0"] n l show ?thesis by simp
qed

text \<open>
  C10: in the state the constructor leaves (current wave 0, no enemy remaining, no spawn
  queue) \<open>isWaveComplete()\<close> is already true, and once a callback is registered (the
  constructor itself leaves it \<open>null\<close>, and then nothing is invoked) a single \<open>update\<close> call
  invokes it with wave number 0.
\<close>

theorem initial_state_signals_wave_zero:
  "currentWave (newWaveManager rolls) = 0
   \<and> enemiesRemaining (newWaveManager rolls) = 0
   \<and> enemiesToSpawn (newWaveManager rolls) = None
   \<and> isWaveComplete (newWaveManager rolls)
   \<and> waveCompleteCalls (update dt ((newWaveManager rolls)\<lparr>onWaveComplete := True\<rparr>)) = [0]
   \<and> waveCompleteCalls (update dt (newWaveManager rolls)) = []"
  by (simp add: isWaveComplete_def newWaveManager_def update_def completionStep_def enemyStep_def
      spawnStep_def)

theorem initial_state_signals_wave_zero_witness:
  "isWaveComplete (newWaveManager (rolls_const 0))
   \<and> waveCompleteCalls (update 16 ((newWaveManager (rolls_const 0))\<lparr>onWaveComplete := True\<rparr>)) = [0]"
  using initial_state_signals_wave_zero [of "rolls_const 0" 16] by simp

section \<open>Properties of the hand tracker\<close>

lemma detectGesture_silent_unless_idle:
  "currentGesture (detectGesture t) \<noteq> IDLE \<Longrightarrow>
   gestureChangeCalls (detectGesture t) = gestureChangeCalls t"
  by (auto simp: detectGesture_def Let_def split: option.splits if_splits)

lemma detectGesture_aim:
  "smoothAimPosition (detectGesture t) = smoothAimPosition t"
  "aimPosition (detectGesture t) = aimPosition t"
  "smoothingFactor (detectGesture t) = smoothingFactor t"
  "rightHand (detectGesture t) = rightHand t"
  by (auto simp: detectGesture_def Let_def split: option.splits)

text \<open>
  C2: the claim asks for one \<open>onGestureChange\<close> notification in every frame whose gesture
  differs from the previous frame's, whichever gesture it is. In \<open>detectGesture\<close> every
  branch that recognises a gesture returns before the notification, which stands after the
  \<open>IDLE\<close> default. A tracker with a registered callback that was \<open>IDLE\<close> and now sees an open
  right palm computes \<open>THRUST\<close> and notifies nobody; when the hand is gone in the next
  frame, the change back to \<open>IDLE\<close> is notified.
\<close>

theorem gesture_change_lost_on_early_return:
  "currentGesture
     (processResults None
        (Some \<lparr>palmCenter = (1 / 2, 1 / 2, 0), isPinching = False, isFist = False,
               isOpenPalm = True, isPointing = False, indexTip = (1 / 2, 1 / 4)\<rparr>)
        (newHandTracker\<lparr>onGestureChange := True\<rparr>)) = THRUST
   \<and> previousGesture
     (processResults None
        (Some \<lparr>palmCenter = (1 / 2, 1 / 2, 0), isPinching = False, isFist = False,
               isOpenPalm = True, isPointing = False, indexTip = (1 / 2, 1 / 4)\<rparr>)
        (newHandTracker\<lparr>onGestureChange := True\<rparr>)) = IDLE
   \<and> gestureChangeCalls
     (processResults None
        (Some \<lparr>palmCenter = (1 / 2, 1 / 2, 0), isPinching = False, isFist = False,
               isOpenPalm = True, isPointing = False, indexTip = (1 / 2, 1 / 4)\<rparr>)
        (newHandTracker\<lparr>onGestureChange := True\<rparr>)) = []
   \<and> gestureChangeCalls
     (processResults None None
        (processResults None
           (Some \<lparr>palmCenter = (1 / 2, 1 / 2, 0), isPinching = False, isFist = False,
                  isOpenPalm = True, isPointing = False, indexTip = (1 / 2, 1 / 4)\<rparr>)
           (newHandTracker\<lparr>onGestureChange := True\<rparr>))) = [(IDLE, THRUST)]"
  by (simp add: processResults_def detectGesture_def updateAimPosition_def newHandTracker_def
      rightHandGesture_def Let_def)

text \<open>The raw aim target a frame with right hand \<open>r\<close> sets.\<close>

lemma processResults_aim:
  "aimPosition (processResults l r t) =
     (case r of
        None \<Rightarrow> aimPosition t
      | Some h \<Rightarrow> if isPointing h then (1 - fst (indexTip h), snd (indexTip h))
                  else (1 - fst (palmCenter h), fst (snd (palmCenter h))))"
  by (auto simp: processResults_def updateAimPosition_def detectGesture_aim Let_def
      split: option.splits)

lemma processResults_factor: "smoothingFactor (processResults l r t) = smoothingFactor t"
  by (auto simp: processResults_def updateAimPosition_def detectGesture_aim Let_def
      split: option.splits)

lemma processResults_smooth:
  "smoothAimPosition (processResults l r t) =
     (clamp01 (fst (smoothAimPosition t) +
        (fst (aimPosition (processResults l r t)) - fst (smoothAimPosition t)) * smoothingFactor t),
      clamp01 (snd (smoothAimPosition t) +
        (snd (aimPosition (processResults l r t)) - snd (smoothAimPosition t)) * smoothingFactor t))"
  by (auto simp: processResults_def updateAimPosition_def detectGesture_aim Let_def
      split: option.splits)

lemma processResults_wellFormed: "aimWellFormed t \<Longrightarrow> aimWellFormed (processResults l r t)"
  unfolding aimWellFormed_def processResults_factor
  by (simp add: processResults_smooth clamp01_def)

lemma heldFrames_wellFormed: "aimWellFormed t \<Longrightarrow> aimWellFormed (heldFrames n l r t)"
  by (induction n) (simp_all add: processResults_wellFormed)

lemma processResults_aim_again:
  "aimPosition (processResults l r (processResults l' r t)) = aimPosition (processResults l' r t)"
  by (cases r) (simp_all add: processResults_aim)

lemma heldFrames_aim:
  "aimPosition (heldFrames (Suc n) l r t) = aimPosition (heldFrames (Suc 0) l r t)"
proof (induction n)
  case 0
  show ?case by simp
next
  case (Suc n)
  have "aimPosition (heldFrames (Suc (Suc n)) l r t) = aimPosition (heldFrames (Suc n) l r t)"
    using processResults_aim_again [of l r l "heldFrames n l r t"] by simp
  then show ?case using Suc.IH by simp
qed

lemma half_step_between:
  assumes "0 \<le> s" "s \<le> 1"
  shows "min s a \<le> clamp01 (s + (a - s) * (1 / 2))"
    and "clamp01 (s + (a - s) * (1 / 2)) \<le> max s a"
    and "\<bar>a - clamp01 (s + (a - s) * (1 / 2))\<bar> \<le> \<bar>a - s\<bar>"
    and "0 \<le> clamp01 (s + (a - s) * (1 / 2))"
    and "clamp01 (s + (a - s) * (1 / 2)) \<le> 1"
  using assms by (auto simp: clamp01_def min_def max_def abs_if field_simps)

lemma half_step_exact:
  assumes "0 \<le> s" "s \<le> 1"
  shows "s \<noteq> clamp01 a \<Longrightarrow> \<bar>a - clamp01 (s + (a - s) * (1 / 2))\<bar> < \<bar>a - s\<bar>"
    and "0 \<le> a \<Longrightarrow> a \<le> 1 \<Longrightarrow> \<bar>a - clamp01 (s + (a - s) * (1 / 2))\<bar> = \<bar>a - s\<bar> / 2"
    and "\<bar>clamp01 a - clamp01 (s + (a - s) * (1 / 2))\<bar> \<le> \<bar>clamp01 a - s\<bar> / 2"
  using assms by (auto simp: clamp01_def min_def max_def abs_if field_simps split: if_splits)

lemma heldFrames_smooth_step:
  assumes wf: "aimWellFormed t"
  shows "smoothAimPosition (heldFrames (Suc n) l r t) =
     (clamp01 (fst (smoothAimPosition (heldFrames n l r t)) +
        (fst (aimPosition (heldFrames (Suc 0) l r t)) - fst (smoothAimPosition (heldFrames n l r t)))
          * (1 / 2)),
      clamp01 (snd (smoothAimPosition (heldFrames n l r t)) +
        (snd (aimPosition (heldFrames (Suc 0) l r t)) - snd (smoothAimPosition (heldFrames n l r t)))
          * (1 / 2)))"
proof -
  let ?u = "heldFrames n l r t"
  have "aimWellFormed ?u" using wf by (rule heldFrames_wellFormed)
  then have f: "smoothingFactor ?u = 1 / 2" by (simp add: aimWellFormed_def)
  have a: "aimPosition (heldFrames (Suc n) l r t) = aimPosition (heldFrames (Suc 0) l r t)"
    by (rule heldFrames_aim)
  have "smoothAimPosition (heldFrames (Suc n) l r t) =
     (clamp01 (fst (smoothAimPosition ?u) +
        (fst (aimPosition (heldFrames (Suc n) l r t)) - fst (smoothAimPosition ?u)) * smoothingFactor ?u),
      clamp01 (snd (smoothAimPosition ?u) +
        (snd (aimPosition (heldFrames (Suc n) l r t)) - snd (smoothAimPosition ?u)) * smoothingFactor ?u))"
    using processResults_smooth [of l r ?u] by simp
  then show ?thesis unfolding a f .
qed

lemma heldFrames_converges:
  assumes wf: "aimWellFormed t"
  shows "\<bar>clamp01 (fst (aimPosition (heldFrames (Suc 0) l r t)))
            - fst (smoothAimPosition (heldFrames n l r t))\<bar>
           \<le> \<bar>clamp01 (fst (aimPosition (heldFrames (Suc 0) l r t))) - fst (smoothAimPosition t)\<bar> / 2 ^ n
       \<and> \<bar>clamp01 (snd (aimPosition (heldFrames (Suc 0) l r t)))
            - snd (smoothAimPosition (heldFrames n l r t))\<bar>
           \<le> \<bar>clamp01 (snd (aimPosition (heldFrames (Suc 0) l r t))) - snd (smoothAimPosition t)\<bar> / 2 ^ n"
proof (induction n)
  case 0
  show ?case by simp
next
  case (Suc n)
  let ?u = "heldFrames n l r t"
  let ?a = "aimPosition (heldFrames (Suc 0) l r t)"
  have u: "aimWellFormed ?u" using wf by (rule heldFrames_wellFormed)
  have x: "0 \<le> fst (smoothAimPosition ?u)" "fst (smoothAimPosition ?u) \<le> 1"
    and y: "0 \<le> snd (smoothAimPosition ?u)" "snd (smoothAimPosition ?u) \<le> 1"
    using u by (simp_all add: aimWellFormed_def)
  have s: "fst (smoothAimPosition (heldFrames (Suc n) l r t)) =
      clamp01 (fst (smoothAimPosition ?u) + (fst ?a - fst (smoothAimPosition ?u)) * (1 / 2))"
    "snd (smoothAimPosition (heldFrames (Suc n) l r t)) =
      clamp01 (snd (smoothAimPosition ?u) + (snd ?a - snd (smoothAimPosition ?u)) * (1 / 2))"
    unfolding heldFrames_smooth_step [OF wf, of n l r] by simp_all
  have "\<bar>clamp01 (fst ?a) - fst (smoothAimPosition (heldFrames (Suc n) l r t))\<bar>
      \<le> \<bar>clamp01 (fst ?a) - fst (smoothAimPosition ?u)\<bar> / 2"
    unfolding s using half_step_exact(3) [OF x, of "fst ?a"] .
  also have "\<dots> \<le> (\<bar>clamp01 (fst ?a) - fst (smoothAimPosition t)\<bar> / 2 ^ n) / 2"
    using Suc.IH by simp
  finally have one: "\<bar>clamp01 (fst ?a) - fst (smoothAimPosition (heldFrames (Suc n) l r t))\<bar>
      \<le> \<bar>clamp01 (fst ?a) - fst (smoothAimPosition t)\<bar> / 2 ^ Suc n"
    by simp
  have "\<bar>clamp01 (snd ?a) - snd (smoothAimPosition (heldFrames (Suc n) l r t))\<bar>
      \<le> \<bar>clamp01 (snd ?a) - snd (smoothAimPosition ?u)\<bar> / 2"
    unfolding s using half_step_exact(3) [OF y, of "snd ?a"] .
  also have "\<dots> \<le> (\<bar>clamp01 (snd ?a) - snd (smoothAimPosition t)\<bar> / 2 ^ n) / 2"
    using Suc.IH by simp
  finally have two: "\<bar>clamp01 (snd ?a) - snd (smoothAimPosition (heldFrames (Suc n) l r t))\<bar>
      \<le> \<bar>clamp01 (snd ?a) - snd (smoothAimPosition t)\<bar> / 2 ^ Suc n"
    by simp
  from one two show ?case by blast
qed

text \<open>
  C9: while the same hands are shown frame after frame, the raw aim target is the same in
  every frame, and in each frame each coordinate \<open>s\<close> of the smoothed aim becomes
  \<open>clamp01 (s + (a - s) / 2)\<close> for the target coordinate \<open>a\<close>. That value lies between
  \<open>s\<close> and \<open>a\<close> (it never passes the target) and in \<open>[0, 1]\<close>. It is strictly closer to
  the target than \<open>s\<close> unless \<open>s\<close> already is the point of \<open>[0, 1]\<close> nearest to the target;
  for a target coordinate in \<open>[0, 1]\<close> the distance is halved in every frame; and after
  \<open>n\<close> frames the distance to the nearest point of \<open>[0, 1]\<close> is at most the initial one
  divided by \<open>2 ^ n\<close>. The tracker is any one with the constructor's blend factor 0.5 and
  a smoothed aim in the unit square, as every reachable tracker is.
\<close>

theorem smoothed_aim_monotone:
  assumes wf: "aimWellFormed t"
  shows "aimPosition (heldFrames (Suc n) l r t) = aimPosition (heldFrames (Suc 0) l r t)
       \<and> min (fst (smoothAimPosition (heldFrames n l r t))) (fst (aimPosition (heldFrames (Suc 0) l r t)))
            \<le> fst (smoothAimPosition (heldFrames (Suc n) l r t))
       \<and> fst (smoothAimPosition (heldFrames (Suc n) l r t))
            \<le> max (fst (smoothAimPosition (heldFrames n l r t))) (fst (aimPosition (heldFrames (Suc 0) l r t)))
       \<and> \<bar>fst (aimPosition (heldFrames (Suc 0) l r t)) - fst (smoothAimPosition (heldFrames (Suc n) l r t))\<bar>
            \<le> \<bar>fst (aimPosition (heldFrames (Suc 0) l r t)) - fst (smoothAimPosition (heldFrames n l r t))\<bar>
       \<and> min (snd (smoothAimPosition (heldFrames n l r t))) (snd (aimPosition (heldFrames (Suc 0) l r t)))
            \<le> snd (smoothAimPosition (heldFrames (Suc n) l r t))
       \<and> snd (smoothAimPosition (heldFrames (Suc n) l r t))
            \<le> max (snd (smoothAimPosition (heldFrames n l r t))) (snd (aimPosition (heldFrames (Suc 0) l r t)))
       \<and> \<bar>snd (aimPosition (heldFrames (Suc 0) l r t)) - snd (smoothAimPosition (heldFrames (Suc n) l r t))\<bar>
            \<le> \<bar>snd (aimPosition (heldFrames (Suc 0) l r t)) - snd (smoothAimPosition (heldFrames n l r t))\<bar>
       \<and> 0 \<le> fst (smoothAimPosition (heldFrames (Suc n) l r t))
       \<and> fst (smoothAimPosition (heldFrames (Suc n) l r t)) \<le> 1
       \<and> 0 \<le> snd (smoothAimPosition (heldFrames (Suc n) l r t))
       \<and> snd (smoothAimPosition (heldFrames (Suc n) l r t)) \<le> 1
       \<and> fst (smoothAimPosition (heldFrames (Suc n) l r t)) =
           clamp01 (fst (smoothAimPosition (heldFrames n l r t)) +
             (fst (aimPosition (heldFrames (Suc 0) l r t)) - fst (smoothAimPosition (heldFrames n l r t)))
               * (1 / 2))
       \<and> snd (smoothAimPosition (heldFrames (Suc n) l r t)) =
           clamp01 (snd (smoothAimPosition (heldFrames n l r t)) +
             (snd (aimPosition (heldFrames (Suc 0) l r t)) - snd (smoothAimPosition (heldFrames n l r t)))
               * (1 / 2))
       \<and> (fst (smoothAimPosition (heldFrames n l r t))
             \<noteq> clamp01 (fst (aimPosition (heldFrames (Suc 0) l r t))) \<longrightarrow>
           \<bar>fst (aimPosition (heldFrames (Suc 0) l r t)) - fst (smoothAimPosition (heldFrames (Suc n) l r t))\<bar>
             < \<bar>fst (aimPosition (heldFrames (Suc 0) l r t)) - fst (smoothAimPosition (heldFrames n l r t))\<bar>)
       \<and> (snd (smoothAimPosition (heldFrames n l r t))
             \<noteq> clamp01 (snd (aimPosition (heldFrames (Suc 0) l r t))) \<longrightarrow>
           \<bar>snd (aimPosition (heldFrames (Suc 0) l r t)) - snd (smoothAimPosition (heldFrames (Suc n) l r t))\<bar>
             < \<bar>snd (aimPosition (heldFrames (Suc 0) l r t)) - snd (smoothAimPosition (heldFrames n l r t))\<bar>)
       \<and> (0 \<le> fst (aimPosition (heldFrames (Suc 0) l r t))
            \<and> fst (aimPosition (heldFrames (Suc 0) l r t)) \<le> 1 \<longrightarrow>
           \<bar>fst (aimPosition (heldFrames (Suc 0) l r t)) - fst (smoothAimPosition (heldFrames (Suc n) l r t))\<bar>
             = \<bar>fst (aimPosition (heldFrames (Suc 0) l r t)) - fst (smoothAimPosition (heldFrames n l r t))\<bar> / 2)
       \<and> (0 \<le> snd (aimPosition (heldFrames (Suc 0) l r t))
            \<and> snd (aimPosition (heldFrames (Suc 0) l r t)) \<le> 1 \<longrightarrow>
           \<bar>snd (aimPosition (heldFrames (Suc 0) l r t)) - snd (smoothAimPosition (heldFrames (Suc n) l r t))\<bar>
             = \<bar>snd (aimPosition (heldFrames (Suc 0) l r t)) - snd (smoothAimPosition (heldFrames n l r t))\<bar> / 2)
       \<and> \<bar>clamp01 (fst (aimPosition (heldFrames (Suc 0) l r t)))
            - fst (smoothAimPosition (heldFrames n l r t))\<bar>
           \<le> \<bar>clamp01 (fst (aimPosition (heldFrames (Suc 0) l r t))) - fst (smoothAimPosition t)\<bar> / 2 ^ n
       \<and> \<bar>clamp01 (snd (aimPosition (heldFrames (Suc 0) l r t)))
            - snd (smoothAimPosition (heldFrames n l r t))\<bar>
           \<le> \<bar>clamp01 (snd (aimPosition (heldFrames (Suc 0) l r t))) - snd (smoothAimPosition t)\<bar> / 2 ^ n"
proof -
  let ?u = "heldFrames n l r t"
  let ?a = "aimPosition (heldFrames (Suc 0) l r t)"
  have u: "aimWellFormed ?u" using wf by (rule heldFrames_wellFormed)
  have x: "0 \<le> fst (smoothAimPosition ?u)" "fst (smoothAimPosition ?u) \<le> 1"
    and y: "0 \<le> snd (smoothAimPosition ?u)" "snd (smoothAimPosition ?u) \<le> 1"
    using u by (simp_all add: aimWellFormed_def)
  have a: "aimPosition (heldFrames (Suc n) l r t) = ?a" by (rule heldFrames_aim)
  have s: "fst (smoothAimPosition (heldFrames (Suc n) l r t)) =
      clamp01 (fst (smoothAimPosition ?u) + (fst ?a - fst (smoothAimPosition ?u)) * (1 / 2))"
    "snd (smoothAimPosition (heldFrames (Suc n) l r t)) =
      clamp01 (snd (smoothAimPosition ?u) + (snd ?a - snd (smoothAimPosition ?u)) * (1 / 2))"
    unfolding heldFrames_smooth_step [OF wf, of n l r] by simp_all
  have between: "min (fst (smoothAimPosition ?u)) (fst ?a) \<le> fst (smoothAimPosition (heldFrames (Suc n) l r t))"
    "fst (smoothAimPosition (heldFrames (Suc n) l r t)) \<le> max (fst (smoothAimPosition ?u)) (fst ?a)"
    "\<bar>fst ?a - fst (smoothAimPosition (heldFrames (Suc n) l r t))\<bar> \<le> \<bar>fst ?a - fst (smoothAimPosition ?u)\<bar>"
    "0 \<le> fst (smoothAimPosition (heldFrames (Suc n) l r t))"
    "fst (smoothAimPosition (heldFrames (Suc n) l r t)) \<le> 1"
    "min (snd (smoothAimPosition ?u)) (snd ?a) \<le> snd (smoothAimPosition (heldFrames (Suc n) l r t))"
    "snd (smoothAimPosition (heldFrames (Suc n) l r t)) \<le> max (snd (smoothAimPosition ?u)) (snd ?a)"
    "\<bar>snd ?a - snd (smoothAimPosition (heldFrames (Suc n) l r t))\<bar> \<le> \<bar>snd ?a - snd (smoothAimPosition ?u)\<bar>"
    "0 \<le> snd (smoothAimPosition (heldFrames (Suc n) l r t))"
    "snd (smoothAimPosition (heldFrames (Suc n) l r t)) \<le> 1"
    unfolding s
    using half_step_between [OF x, of "fst ?a"] half_step_between [OF y, of "snd ?a"]
    by simp_all
  have strict: "fst (smoothAimPosition ?u) \<noteq> clamp01 (fst ?a) \<longrightarrow>
      \<bar>fst ?a - fst (smoothAimPosition (heldFrames (Suc n) l r t))\<bar> < \<bar>fst ?a - fst (smoothAimPosition ?u)\<bar>"
    "snd (smoothAimPosition ?u) \<noteq> clamp01 (snd ?a) \<longrightarrow>
      \<bar>snd ?a - snd (smoothAimPosition (heldFrames (Suc n) l r t))\<bar> < \<bar>snd ?a - snd (smoothAimPosition ?u)\<bar>"
    unfolding s
    using half_step_exact(1) [OF x, of "fst ?a"] half_step_exact(1) [OF y, of "snd ?a"]
    by blast+
  have halved: "0 \<le> fst ?a \<and> fst ?a \<le> 1 \<longrightarrow>
      \<bar>fst ?a - fst (smoothAimPosition (heldFrames (Suc n) l r t))\<bar> = \<bar>fst ?a - fst (smoothAimPosition ?u)\<bar> / 2"
    "0 \<le> snd ?a \<and> snd ?a \<le> 1 \<longrightarrow>
      \<bar>snd ?a - snd (smoothAimPosition (heldFrames (Suc n) l r t))\<bar> = \<bar>snd ?a - snd (smoothAimPosition ?u)\<bar> / 2"
    unfolding s
    using half_step_exact(2) [OF x, of "fst ?a"] half_step_exact(2) [OF y, of "snd ?a"]
    by blast+
  note conv = heldFrames_converges [OF wf, of l r n]
  show ?thesis
    using a between s strict halved conv by blast
qed

text \<open>
  C9 on a new tracker that sees an open right palm at \<open>(0.9, 0.2)\<close>, so that the raw target
  is \<open>(0.1, 0.2)\<close>: the smoothed \<open>x\<close> goes 0.5, 0.3, 0.2, 0.15; in the third frame its
  distance to the target falls from 0.1 to 0.05.
\<close>

theorem smoothed_aim_monotone_witness:
  "aimWellFormed newHandTracker
   \<and> aimPosition (heldFrames (Suc 0) None
        (Some \<lparr>palmCenter = (9 / 10, 2 / 10, 0), isPinching = False, isFist = False,
                   isOpenPalm = True, isPointing = False, indexTip = (9 / 10, 1 / 10)\<rparr>)
        newHandTracker) = (1 / 10, 2 / 10)
   \<and> fst (smoothAimPosition (heldFrames 2 None
        (Some \<lparr>palmCenter = (9 / 10, 2 / 10, 0), isPinching = False, isFist = False,
                   isOpenPalm = True, isPointing = False, indexTip = (9 / 10, 1 / 10)\<rparr>)
        newHandTracker)) = 2 / 10
   \<and> fst (smoothAimPosition (heldFrames (Suc 2) None
        (Some \<lparr>palmCenter = (9 / 10, 2 / 10, 0), isPinching = False, isFist = False,
                   isOpenPalm = True, isPointing = False, indexTip = (9 / 10, 1 / 10)\<rparr>)
        newHandTracker)) = 15 / 100
   \<and> \<bar>fst (aimPosition (heldFrames (Suc 0) None
            (Some \<lparr>palmCenter = (9 / 10, 2 / 10, 0), isPinching = False, isFist = False,
                   isOpenPalm = True, isPointing = False, indexTip = (9 / 10, 1 / 10)\<rparr>)
            newHandTracker))
        - fst (smoothAimPosition (heldFrames (Suc 2) None
            (Some \<lparr>palmCenter = (9 / 10, 2 / 10, 0), isPinching = False, isFist = False,
                   isOpenPalm = True, isPointing = False, indexTip = (9 / 10, 1 / 10)\<rparr>)
            newHandTracker))\<bar>
     < \<bar>fst (aimPosition (heldFrames (Suc 0) None
            (Some \<lparr>palmCenter = (9 / 10, 2 / 10, 0), isPinching = False, isFist = False,
                   isOpenPalm = True, isPointing = False, indexTip = (9 / 10, 1 / 10)\<rparr>)
            newHandTracker))
        - fst (smoothAimPosition (heldFrames 2 None
            (Some \<lparr>palmCenter = (9 / 10, 2 / 10, 0), isPinching = False, isFist = False,
                   isOpenPalm = True, isPointing = False, indexTip = (9 / 10, 1 / 10)\<rparr>)
            newHandTracker))\<bar>
   \<and> \<bar>fst (aimPosition (heldFrames (Suc 0) None
            (Some \<lparr>palmCenter = (9 / 10, 2 / 10, 0), isPinching = False, isFist = False,
                   isOpenPalm = True, isPointing = False, indexTip = (9 / 10, 1 / 10)\<rparr>)
            newHandTracker))
        - fst (smoothAimPosition (heldFrames (Suc 2) None
            (Some \<lparr>palmCenter = (9 / 10, 2 / 10, 0), isPinching = False, isFist = False,
                   isOpenPalm = True, isPointing = False, indexTip = (9 / 10, 1 / 10)\<rparr>)
            newHandTracker))\<bar> = 1 / 20"
proof -
  let ?h = "Some \<lparr>palmCenter = (9 / 10, 2 / 10, 0), isPinching = False, isFist = False,
                   isOpenPalm = True, isPointing = False, indexTip = (9 / 10, 1 / 10)\<rparr>"
  let ?a = "aimPosition (heldFrames (Suc 0) None ?h newHandTracker)"
  let ?s2 = "smoothAimPosition (heldFrames 2 None ?h newHandTracker)"
  let ?s3 = "smoothAimPosition (heldFrames (Suc 2) None ?h newHandTracker)"
  have wf: "aimWellFormed newHandTracker"
    by (simp add: aimWellFormed_def newHandTracker_def)
  have a: "?a = (1 / 10, 2 / 10)"
    by (simp add: processResults_aim)
  have s2: "fst ?s2 = 2 / 10"
    by (simp add: numeral_2_eq_2 processResults_smooth processResults_aim processResults_factor
        newHandTracker_def clamp01_def)
  have h1: "fst ?s2 \<noteq> clamp01 (fst ?a)" unfolding s2 a by (simp add: clamp01_def)
  have h2: "0 \<le> fst ?a \<and> fst ?a \<le> 1" unfolding a by simp
  note inst = smoothed_aim_monotone [OF wf, of 2 None ?h]
  have step: "fst ?s3 = clamp01 (fst ?s2 + (fst ?a - fst ?s2) * (1 / 2))"
    using inst by blast
  have s3: "fst ?s3 = 15 / 100" unfolding step s2 a by (simp add: clamp01_def)
  have lt: "\<bar>fst ?a - fst ?s3\<bar> < \<bar>fst ?a - fst ?s2\<bar>" using inst h1 by blast
  have "\<bar>fst ?a - fst ?s3\<bar> = \<bar>fst ?a - fst ?s2\<bar> / 2" using inst h2 by blast
  then have hv: "\<bar>fst ?a - fst ?s3\<bar> = 1 / 20" unfolding s2 a by simp
  show ?thesis using wf a s2 s3 lt hv by blast
qed

section \<open>Properties of the ship\<close>

lemma takeDamage_normal:
  "\<not> isInvulnerable s \<Longrightarrow> 0 \<le> shield s \<Longrightarrow> 0 \<le> amount \<Longrightarrow>
   takeDamage amount s =
     (s\<lparr>shield := shield s - min (shield s) amount,
        shipHull := shipHull s - (amount - min (shield s) amount)\<rparr>,
      Some (shipHull s - (amount - min (shield s) amount) \<le> 0))"
  by (auto simp: takeDamage_def Let_def min_def)

lemma takeDamage_invulnerable: "isInvulnerable s \<Longrightarrow> takeDamage amount s = (s, None)"
  by (simp add: takeDamage_def)

text \<open>
  The shield of a ship never becomes negative: no frame with a frame time that is not
  negative and no damage with an amount that is not negative makes it so.
\<close>

lemma processGesture_shield:
  "shield (processGesture g dt now s) = shield s"
  "maxShield (processGesture g dt now s) = maxShield s"
  by (cases g; simp add: processGesture_def boost_def barrelRoll_def rollAnimate_def
      activateShield_def Let_def)+

lemma shipUpdate_shield_nonneg:
  "0 \<le> shield s \<Longrightarrow> 0 \<le> deltaTime \<Longrightarrow> 0 \<le> shield (shipUpdate deltaTime g now s)"
  by (simp add: shipUpdate_def Let_def processGesture_shield min_def)

lemma takeDamage_shield_nonneg:
  "0 \<le> shield s \<Longrightarrow> 0 \<le> amount \<Longrightarrow> 0 \<le> shield (fst (takeDamage amount s))"
  by (simp add: takeDamage_def Let_def min_def)

text \<open>
  C4: on a ship that is not invulnerable, \<open>takeDamage(amount)\<close> takes \<open>min(shield, amount)\<close>
  from the shield, the rest from the hull, and reports death exactly when the resulting hull
  is at most 0 (for a damage amount and a shield that are not negative, as every caller
  passes and every reachable ship has). With shield 30, hull 100 and amount 50 the result is
  shield 0, hull 80, not dead; with shield 0, hull 10 and amount 50 it is hull -40, dead.
\<close>

theorem takeDamage_shield_then_hull:
  "(\<not> isInvulnerable s \<and> 0 \<le> shield s \<and> 0 \<le> amount \<longrightarrow>
      takeDamage amount s =
        (s\<lparr>shield := shield s - min (shield s) amount,
           shipHull := shipHull s - (amount - min (shield s) amount)\<rparr>,
         Some (shipHull s - (amount - min (shield s) amount) \<le> 0)))
   \<and> takeDamage 50 (s\<lparr>isInvulnerable := False, shield := 30, shipHull := 100\<rparr>) =
        (s\<lparr>isInvulnerable := False, shield := 0, shipHull := 80\<rparr>, Some False)
   \<and> takeDamage 50 (s\<lparr>isInvulnerable := False, shield := 0, shipHull := 10\<rparr>) =
        (s\<lparr>isInvulnerable := False, shield := 0, shipHull := - 40\<rparr>, Some True)"
proof (intro conjI impI)
  assume "\<not> isInvulnerable s \<and> 0 \<le> shield s \<and> 0 \<le> amount"
  then show "takeDamage amount s =
        (s\<lparr>shield := shield s - min (shield s) amount,
           shipHull := shipHull s - (amount - min (shield s) amount)\<rparr>,
         Some (shipHull s - (amount - min (shield s) amount) \<le> 0))"
    by (simp add: takeDamage_normal)
next
  show "takeDamage 50 (s\<lparr>isInvulnerable := False, shield := 30, shipHull := 100\<rparr>) =
        (s\<lparr>isInvulnerable := False, shield := 0, shipHull := 80\<rparr>, Some False)"
    by (simp add: takeDamage_def Let_def)
next
  show "takeDamage 50 (s\<lparr>isInvulnerable := False, shield := 0, shipHull := 10\<rparr>) =
        (s\<lparr>isInvulnerable := False, shield := 0, shipHull := - 40\<rparr>, Some True)"
    by (simp add: takeDamage_def Let_def)
qed

theorem takeDamage_shield_then_hull_witness:
  "\<not> isInvulnerable newShip \<and> 0 \<le> shield newShip \<and> (0 :: real) \<le> 150
   \<and> takeDamage 150 newShip = (newShip\<lparr>shield := 0, shipHull := 50\<rparr>, Some False)"
proof -
  have h: "\<not> isInvulnerable newShip \<and> 0 \<le> shield newShip \<and> (0 :: real) \<le> 150"
    by (simp add: newShip_def)
  have "takeDamage 150 newShip =
        (newShip\<lparr>shield := shield newShip - min (shield newShip) 150,
           shipHull := shipHull newShip - (150 - min (shield newShip) 150)\<rparr>,
         Some (shipHull newShip - (150 - min (shield newShip) 150) \<le> 0))"
    using takeDamage_shield_then_hull [of newShip 150] h by blast
  then have "takeDamage 150 newShip = (newShip\<lparr>shield := 0, shipHull := 50\<rparr>, Some False)"
    by (simp add: newShip_def)
  with h show ?thesis by blast
qed

lemma barrelRoll_changes: "barrelRoll now s \<noteq> s \<Longrightarrow> 20 \<le> energy s \<and> \<not> isInvulnerable s"
  by (auto simp: barrelRoll_def split: if_splits)

lemma barrelRoll_start:
  "20 \<le> energy s \<Longrightarrow> \<not> isInvulnerable s \<Longrightarrow>
   barrelRoll now s = s\<lparr>isInvulnerable := True, energy := energy s - 20, rollStart := Some now\<rparr>"
  by (simp add: barrelRoll_def rollAnimate_def Let_def)

lemma rollAnimate_before: "rollStart s = Some st \<Longrightarrow> t - st < 500 \<Longrightarrow> rollAnimate t s = s"
  by (simp add: rollAnimate_def Let_def)

lemma rollAnimate_after:
  "rollStart s = Some st \<Longrightarrow> 500 \<le> t - st \<Longrightarrow>
   rollAnimate t s = s\<lparr>isInvulnerable := False, rollStart := None\<rparr>"
  by (simp add: rollAnimate_def Let_def)

lemma processGesture_roll:
  "isInvulnerable s \<Longrightarrow>
   isInvulnerable (processGesture g dt now s) \<and> rollStart (processGesture g dt now s) = rollStart s"
  by (cases g) (simp_all add: processGesture_def boost_def barrelRoll_def activateShield_def Let_def)

lemma shipUpdate_roll:
  "isInvulnerable s \<Longrightarrow>
   isInvulnerable (shipUpdate deltaTime g now s) \<and> rollStart (shipUpdate deltaTime g now s) = rollStart s"
  using processGesture_roll [of s g "deltaTime * (1 / 1000)" now]
  by (simp add: shipUpdate_def Let_def)

lemma firePrimary_roll:
  "isInvulnerable (ship (fst (firePrimary now w))) = isInvulnerable (ship w)"
  "rollStart (ship (fst (firePrimary now w))) = rollStart (ship w)"
  by (cases "currentWeapon w"; simp add: firePrimary_def fireRailgun_def fireHarpoon_def Let_def)+

lemma toggleLaser_ship: "ship (toggleLaser b w) = ship w"
  by (simp add: toggleLaser_def)

lemma selectWeapon_ship: "ship (selectWeapon n w) = ship w"
  by (simp add: selectWeapon_def Let_def toggleLaser_ship)

lemma updateBeam_roll:
  "isInvulnerable (ship (fst (updateBeam dt es w))) = isInvulnerable (ship w)"
  "rollStart (ship (fst (updateBeam dt es w))) = rollStart (ship w)"
  by (simp_all add: updateBeam_def Let_def toggleLaser_ship)

lemma perform_keeps_roll:
  assumes i: "isInvulnerable (ship w)" and r: "rollStart (ship w) = Some st"
    and "\<forall>t. op = RollFrame t \<longrightarrow> t - st < 500"
  shows "isInvulnerable (ship (perform op w)) \<and> rollStart (ship (perform op w)) = Some st"
proof (cases op)
    case (ShipFrame deltaTime g now)
    then show ?thesis using shipUpdate_roll [OF i, of deltaTime g now] r by simp
  next
    case (RollFrame t)
    then have "t - st < 500" using assms(3) by simp
    from rollAnimate_before [OF r this] show ?thesis using RollFrame i r by simp
  next
    case (DrainTick n)
    then show ?thesis using i r by (simp add: shieldDrainTick_def deactivateShield_def Let_def)
  next
    case (ShieldTimeout n)
    then show ?thesis using i r by (simp add: shieldTimeout_def deactivateShield_def)
  next
    case (Damage amount)
    then show ?thesis using i r by (simp add: takeDamage_invulnerable)
  next
    case (Fire now)
    then show ?thesis using i r by (simp add: firePrimary_roll)
  next
    case (Select n)
    then show ?thesis using i r by (simp add: selectWeapon_ship)
  next
    case (ToggleLaser b)
    then show ?thesis using i r by (simp add: toggleLaser_ship)
next
  case (BeamFrame deltaTime es)
  then show ?thesis
    using i r updateBeam_roll [of "deltaTime * (1 / 1000)" es w] by simp
next
  case Restart
  then show ?thesis using i r by (simp add: startGameReset_def)
qed

text \<open>
  C5: \<open>barrelRoll\<close> changes the ship only when energy is at least 20 and the ship is not
  invulnerable; it then takes exactly 20 energy at once and sets the invulnerable flag,
  leaving hull and shield alone. The flag stays set through every operation except an
  animation frame of the roll that comes 500 ms or more after its start. While the flag is
  set, \<open>takeDamage\<close> changes nothing and reports no death. The animation frame at 500 ms
  or later clears the flag, and \<open>takeDamage\<close> after it takes from shield and hull as usual.
\<close>

theorem barrel_roll_invulnerable_window:
  "(barrelRoll now s \<noteq> s \<longrightarrow> 20 \<le> energy s \<and> \<not> isInvulnerable s)
   \<and> (20 \<le> energy s \<and> \<not> isInvulnerable s \<longrightarrow>
        energy (barrelRoll now s) = energy s - 20
        \<and> isInvulnerable (barrelRoll now s)
        \<and> rollStart (barrelRoll now s) = Some now
        \<and> shield (barrelRoll now s) = shield s
        \<and> shipHull (barrelRoll now s) = shipHull s)
   \<and> (isInvulnerable (ship w) \<and> rollStart (ship w) = Some st
        \<and> (\<forall>t. op = RollFrame t \<longrightarrow> t - st < 500) \<longrightarrow>
        isInvulnerable (ship (perform op w))
        \<and> rollStart (ship (perform op w)) = Some st)
   \<and> (isInvulnerable s \<longrightarrow> takeDamage amount s = (s, None))
   \<and> (isInvulnerable s \<and> rollStart s = Some st \<and> 500 \<le> t - st \<and> 0 \<le> shield s \<and> 0 \<le> amount \<longrightarrow>
        \<not> isInvulnerable (rollAnimate t s)
        \<and> shield (fst (takeDamage amount (rollAnimate t s))) = shield s - min (shield s) amount
        \<and> shipHull (fst (takeDamage amount (rollAnimate t s))) =
            shipHull s - (amount - min (shield s) amount)
        \<and> snd (takeDamage amount (rollAnimate t s)) =
            Some (shipHull s - (amount - min (shield s) amount) \<le> 0))"
proof (intro conjI impI)
  assume "barrelRoll now s \<noteq> s"
  then show "20 \<le> energy s" "\<not> isInvulnerable s" using barrelRoll_changes by blast+
next
  assume a: "20 \<le> energy s \<and> \<not> isInvulnerable s"
  then have b: "barrelRoll now s =
      s\<lparr>isInvulnerable := True, energy := energy s - 20, rollStart := Some now\<rparr>"
    by (simp add: barrelRoll_start)
  show "energy (barrelRoll now s) = energy s - 20" "isInvulnerable (barrelRoll now s)"
    "rollStart (barrelRoll now s) = Some now" "shield (barrelRoll now s) = shield s"
    "shipHull (barrelRoll now s) = shipHull s"
    unfolding b by simp_all
next
  assume "isInvulnerable (ship w) \<and> rollStart (ship w) = Some st
      \<and> (\<forall>t. op = RollFrame t \<longrightarrow> t - st < 500)"
  then have k: "isInvulnerable (ship (perform op w))
      \<and> rollStart (ship (perform op w)) = Some st"
    using perform_keeps_roll [of w st op] by simp
  from k show "isInvulnerable (ship (perform op w))" by simp
  from k show "rollStart (ship (perform op w)) = Some st" by simp
next
  assume "isInvulnerable s"
  then show "takeDamage amount s = (s, None)" by (rule takeDamage_invulnerable)
next
  assume a: "isInvulnerable s \<and> rollStart s = Some st \<and> 500 \<le> t - st \<and> 0 \<le> shield s \<and> 0 \<le> amount"
  then have r: "rollAnimate t s = s\<lparr>isInvulnerable := False, rollStart := None\<rparr>"
    using rollAnimate_after by blast
  have n: "\<not> isInvulnerable (rollAnimate t s)" "0 \<le> shield (rollAnimate t s)"
    unfolding r using a by simp_all
  from n(1) show "\<not> isInvulnerable (rollAnimate t s)" .
  have td: "takeDamage amount (rollAnimate t s) =
      ((rollAnimate t s)\<lparr>shield := shield (rollAnimate t s) - min (shield (rollAnimate t s)) amount,
         shipHull := shipHull (rollAnimate t s) - (amount - min (shield (rollAnimate t s)) amount)\<rparr>,
       Some (shipHull (rollAnimate t s) - (amount - min (shield (rollAnimate t s)) amount) \<le> 0))"
    using takeDamage_normal [OF n] a by simp
  show "shield (fst (takeDamage amount (rollAnimate t s))) = shield s - min (shield s) amount"
    unfolding td by (simp add: r)
  show "shipHull (fst (takeDamage amount (rollAnimate t s))) =
      shipHull s - (amount - min (shield s) amount)"
    unfolding td by (simp add: r)
  show "snd (takeDamage amount (rollAnimate t s)) =
      Some (shipHull s - (amount - min (shield s) amount) \<le> 0)"
    unfolding td by (simp add: r)
qed

text \<open>
  C5 on a new ship that rolls at clock 1000: damage of 30 during the roll, an animation frame
  at 1200, then the frame at 1500 that ends the roll and the same damage again.
\<close>

theorem barrel_roll_invulnerable_window_witness:
  "barrelRoll 1000 newShip \<noteq> newShip
   \<and> 20 \<le> energy newShip \<and> \<not> isInvulnerable newShip
   \<and> energy (barrelRoll 1000 newShip) = 80
   \<and> isInvulnerable (barrelRoll 1000 newShip)
   \<and> rollStart (barrelRoll 1000 newShip) = Some 1000
   \<and> isInvulnerable
       (ship (perform (RollFrame 1200) (newWeapons (barrelRoll 1000 newShip))))
   \<and> takeDamage 30 (barrelRoll 1000 newShip) = (barrelRoll 1000 newShip, None)
   \<and> \<not> isInvulnerable (rollAnimate 1500 (barrelRoll 1000 newShip))
   \<and> shield (fst (takeDamage 30 (rollAnimate 1500 (barrelRoll 1000 newShip)))) = 70
   \<and> snd (takeDamage 30 (rollAnimate 1500 (barrelRoll 1000 newShip))) = Some False"
proof -
  let ?r = "barrelRoll 1000 newShip"
  have c: "?r \<noteq> newShip"
    by (simp add: barrelRoll_def rollAnimate_def newShip_def Let_def)
  have p: "20 \<le> energy newShip \<and> \<not> isInvulnerable newShip"
    by (simp add: newShip_def)
  have e: "energy newShip = 100" by (simp add: newShip_def)
  have one: "energy ?r = energy newShip - 20 \<and> isInvulnerable ?r \<and> rollStart ?r = Some 1000
      \<and> shield ?r = shield newShip \<and> shipHull ?r = shipHull newShip"
    using barrel_roll_invulnerable_window [of 1000 newShip] p by blast
  have sh: "shield ?r = 100" "shipHull ?r = 100" using one by (simp_all add: newShip_def)
  have q: "isInvulnerable (ship (newWeapons ?r)) \<and> rollStart (ship (newWeapons ?r)) = Some 1000
      \<and> (\<forall>t. RollFrame 1200 = RollFrame t \<longrightarrow> t - 1000 < 500)"
    using one by (simp add: newWeapons_def)
  have h: "isInvulnerable ?r \<and> rollStart ?r = Some 1000 \<and> (500 :: real) \<le> 1500 - 1000
      \<and> 0 \<le> shield ?r \<and> (0 :: real) \<le> 30"
    using one sh by simp
  have two: "isInvulnerable (ship (perform (RollFrame 1200) (newWeapons ?r)))"
    and three: "takeDamage 30 ?r = (?r, None)"
    and four: "\<not> isInvulnerable (rollAnimate 1500 ?r)
      \<and> shield (fst (takeDamage 30 (rollAnimate 1500 ?r))) = shield ?r - min (shield ?r) 30
      \<and> shipHull (fst (takeDamage 30 (rollAnimate 1500 ?r))) = shipHull ?r - (30 - min (shield ?r) 30)
      \<and> snd (takeDamage 30 (rollAnimate 1500 ?r)) = Some (shipHull ?r - (30 - min (shield ?r) 30) \<le> 0)"
    using barrel_roll_invulnerable_window
      [of 1000 ?r "newWeapons ?r" 1000 "RollFrame 1200" 30 1500] q h
    by blast+
  have five: "shield (fst (takeDamage 30 (rollAnimate 1500 ?r))) = 70"
    "snd (takeDamage 30 (rollAnimate 1500 ?r)) = Some False"
    using four unfolding sh by simp_all
  show ?thesis using c p one e two three four five by simp
qed

lemma processGesture_maxEnergy: "maxEnergy (processGesture g dt now s) = maxEnergy s"
  by (cases g) (simp_all add: processGesture_def boost_def barrelRoll_def rollAnimate_def
      activateShield_def Let_def)

lemma processGesture_regen: "energyRegen (processGesture g dt now s) = energyRegen s"
  by (cases g) (simp_all add: processGesture_def boost_def barrelRoll_def rollAnimate_def
      activateShield_def Let_def)

lemma shipUpdate_maxEnergy: "maxEnergy (shipUpdate deltaTime g now s) = maxEnergy s"
  by (simp add: shipUpdate_def Let_def processGesture_maxEnergy)

lemma shipUpdate_regen: "energyRegen (shipUpdate deltaTime g now s) = energyRegen s"
  by (simp add: shipUpdate_def Let_def processGesture_regen)

lemma shipUpdate_upper: "energy (shipUpdate deltaTime g now s) \<le> maxEnergy s"
  by (simp add: shipUpdate_def Let_def processGesture_maxEnergy)

lemma processGesture_lower:
  assumes "0 \<le> energy s" "0 \<le> dt" "dt \<le> 1 / 10"
  shows "0 \<le> energy (processGesture g dt now s)"
  using assms
  by (cases g) (simp_all add: processGesture_def boost_def barrelRoll_def rollAnimate_def
      activateShield_def Let_def)

lemma shipUpdate_lower:
  assumes "0 \<le> energy s" "0 \<le> energyRegen s" "energy s \<le> maxEnergy s"
    and "0 \<le> deltaTime" "deltaTime \<le> 100"
  shows "0 \<le> energy (shipUpdate deltaTime g now s)"
proof -
  let ?dt = "deltaTime * (1 / 1000)"
  have d: "0 \<le> ?dt" "?dt \<le> 1 / 10" using assms by simp_all
  have p: "0 \<le> energy (processGesture g ?dt now s)"
    by (rule processGesture_lower [OF assms(1) d])
  have m: "0 \<le> maxEnergy s" using assms by linarith
  have r: "0 \<le> energyRegen s * ?dt" using assms d by simp
  show ?thesis using p m r
    by (simp add: shipUpdate_def Let_def processGesture_maxEnergy processGesture_regen)
qed

lemma rollAnimate_energy:
  "energy (rollAnimate now s) = energy s"
  "maxEnergy (rollAnimate now s) = maxEnergy s"
  "energyRegen (rollAnimate now s) = energyRegen s"
  by (simp_all add: rollAnimate_def Let_def split: option.splits)

lemma shieldDrainTick_energy:
  "energy (shieldDrainTick i s) \<le> energy s"
  "maxEnergy (shieldDrainTick i s) = maxEnergy s"
  "energyRegen (shieldDrainTick i s) = energyRegen s"
  by (simp_all add: shieldDrainTick_def deactivateShield_def Let_def)

lemma shieldTimeout_energy:
  "energy (shieldTimeout i s) = energy s"
  "maxEnergy (shieldTimeout i s) = maxEnergy s"
  "energyRegen (shieldTimeout i s) = energyRegen s"
  by (simp_all add: shieldTimeout_def deactivateShield_def)

lemma takeDamage_energy:
  "energy (fst (takeDamage amount s)) = energy s"
  "maxEnergy (fst (takeDamage amount s)) = maxEnergy s"
  "energyRegen (fst (takeDamage amount s)) = energyRegen s"
  by (simp_all add: takeDamage_def Let_def)

lemma energyCost_pos: "0 < energyCost n"
  by (cases n) simp_all

lemma firePrimary_energy:
  "energy (ship (fst (firePrimary now w))) \<le> energy (ship w)"
  "maxEnergy (ship (fst (firePrimary now w))) = maxEnergy (ship w)"
  "energyRegen (ship (fst (firePrimary now w))) = energyRegen (ship w)"
  "0 \<le> energy (ship w) \<Longrightarrow> 0 \<le> energy (ship (fst (firePrimary now w)))"
  using energyCost_pos [of "currentWeapon w"]
  by (cases "currentWeapon w"; simp add: firePrimary_def fireRailgun_def fireHarpoon_def Let_def)+

lemma updateBeam_energy:
  "0 \<le> dt \<Longrightarrow> energy (ship (fst (updateBeam dt es w))) \<le> energy (ship w)"
  "maxEnergy (ship (fst (updateBeam dt es w))) = maxEnergy (ship w)"
  "energyRegen (ship (fst (updateBeam dt es w))) = energyRegen (ship w)"
  by (simp_all add: updateBeam_def Let_def toggleLaser_ship)

lemma perform_maxEnergy: "maxEnergy (ship (perform op w)) = maxEnergy (ship w)"
  by (cases op) (simp_all add: shipUpdate_maxEnergy rollAnimate_energy
      shieldDrainTick_energy shieldTimeout_energy takeDamage_energy firePrimary_energy
      selectWeapon_ship toggleLaser_ship updateBeam_energy startGameReset_def)

lemma perform_regen: "energyRegen (ship (perform op w)) = energyRegen (ship w)"
  by (cases op) (simp_all add: shipUpdate_regen rollAnimate_energy
      shieldDrainTick_energy shieldTimeout_energy takeDamage_energy firePrimary_energy
      selectWeapon_ship toggleLaser_ship updateBeam_energy startGameReset_def)

lemma perform_upper:
  assumes "forwardTime op" "energy (ship w) \<le> maxEnergy (ship w)"
  shows "energy (ship (perform op w)) \<le> maxEnergy (ship w)"
proof (cases op)
  case (ShipFrame deltaTime g now)
  then show ?thesis by (simp add: shipUpdate_upper)
next
  case (DrainTick i)
  then show ?thesis using assms(2) shieldDrainTick_energy(1) [of i "ship w"] by simp
next
  case (Fire now)
  then show ?thesis using assms(2) firePrimary_energy(1) [of now w] by simp
next
  case (BeamFrame deltaTime es)
  then have "0 \<le> deltaTime * (1 / 1000)" using assms(1) by simp
  from updateBeam_energy(1) [OF this, of es w] show ?thesis
    using BeamFrame assms(2) by simp
qed (use assms(2) in \<open>simp_all add: rollAnimate_energy shieldTimeout_energy
      takeDamage_energy selectWeapon_ship toggleLaser_ship startGameReset_def\<close>)

lemma perform_lower:
  assumes "testsBeforeSpending op" "energyWellFormed (ship w)"
  shows "0 \<le> energy (ship (perform op w))"
proof -
  have e: "0 \<le> energy (ship w)" "0 \<le> energyRegen (ship w)" "energy (ship w) \<le> maxEnergy (ship w)"
    using assms(2) by (simp_all add: energyWellFormed_def)
  show ?thesis
  proof (cases op)
    case (ShipFrame deltaTime g now)
    then have "0 \<le> deltaTime" "deltaTime \<le> 100" using assms(1) by simp_all
    from shipUpdate_lower [OF e this] show ?thesis using ShipFrame by simp
  next
    case (Fire now)
    then show ?thesis using firePrimary_energy(4) [OF e(1), of now] by simp
  next
    case (DrainTick i)
    then show ?thesis using assms(1) by simp
  next
    case (BeamFrame deltaTime es)
    then show ?thesis using assms(1) by simp
  qed (use e in \<open>simp_all add: rollAnimate_energy shieldTimeout_energy takeDamage_energy
        selectWeapon_ship toggleLaser_ship startGameReset_def\<close>)
qed

lemma testsBeforeSpending_forwardTime: "testsBeforeSpending op \<Longrightarrow> forwardTime op"
  by (cases op) simp_all

lemma perform_wellFormed:
  assumes "testsBeforeSpending op" "energyWellFormed (ship w)"
  shows "energyWellFormed (ship (perform op w))"
  using perform_lower [OF assms]
    perform_upper [OF testsBeforeSpending_forwardTime [OF assms(1)], of w] assms(2)
  by (simp add: energyWellFormed_def perform_maxEnergy perform_regen)

lemma run_upper:
  "\<forall>op \<in> set ops. forwardTime op \<Longrightarrow> energy (ship w) \<le> maxEnergy (ship w) \<Longrightarrow>
   energy (ship (run ops w)) \<le> maxEnergy (ship (run ops w))"
proof (induction ops arbitrary: w)
  case Nil
  then show ?case by simp
next
  case (Cons op ops)
  have "energy (ship (perform op w)) \<le> maxEnergy (ship (perform op w))"
    using perform_upper [of op w] Cons.prems by (simp add: perform_maxEnergy)
  then show ?case using Cons.IH [of "perform op w"] Cons.prems(1) by simp
qed

lemma run_wellFormed:
  "\<forall>op \<in> set ops. testsBeforeSpending op \<Longrightarrow> energyWellFormed (ship w) \<Longrightarrow>
   energyWellFormed (ship (run ops w))"
proof (induction ops arbitrary: w)
  case Nil
  then show ?case by simp
next
  case (Cons op ops)
  then show ?case using perform_wellFormed [of op w] by simp
qed

lemmas ship_run_defs =
  newGame_def newWeapons_def newShip_def shipUpdate_def processGesture_def
  boost_def barrelRoll_def rollAnimate_def activateShield_def shieldDrainTick_def
  deactivateShield_def firePrimary_def fireRailgun_def Let_def

text \<open>
  C3, as the spec states it: after every operation \<open>0 \<le> energy \<le> maxEnergy\<close>. The shield's
  drain timer subtracts 5 and tests \<open>energy <= 0\<close> afterwards. A new ship raises the shield
  and then alternates drain ticks with 100 ms frames (each regenerates 1): after 24 rounds
  the energy is 4, and the next tick leaves it at -1.
\<close>

theorem energy_below_zero_after_shield_drain:
  "energy (ship (run
      ([ShipFrame 100 SHIELD 0]
       @ concat (replicate 24 [DrainTick 0, ShipFrame 100 IDLE 0])
       @ [DrainTick 0])
      newGame)) < 0"
  by (simp add: ship_run_defs eval_nat_numeral)

text \<open>
  C3, amended: starting from a ship with \<open>0 \<le> energy \<le> maxEnergy\<close> and a regeneration
  rate that is not negative, after any sequence of operations with frame times that are
  not negative the energy is at most \<open>maxEnergy\<close>; and after any sequence made only of ship
  frames of at most 100 ms (any gesture: thrust, boost, roll, shield activation), roll
  animation frames, shield timeouts, damage, firing, weapon selection and restarts the
  energy is at least 0. Nothing is promised about the lower bound once a shield drain tick or a beam
  frame has run.
\<close>

theorem energy_within_bounds:
  assumes "energyWellFormed (ship w)"
  shows "((\<forall>op \<in> set ops. forwardTime op) \<longrightarrow>
            energy (ship (run ops w)) \<le> maxEnergy (ship (run ops w)))
       \<and> ((\<forall>op \<in> set ops. testsBeforeSpending op) \<longrightarrow>
            0 \<le> energy (ship (run ops w)))"
proof (intro conjI impI)
  assume "\<forall>op \<in> set ops. forwardTime op"
  then show "energy (ship (run ops w)) \<le> maxEnergy (ship (run ops w))"
    using assms by (simp add: run_upper energyWellFormed_def)
next
  assume "\<forall>op \<in> set ops. testsBeforeSpending op"
  then have "energyWellFormed (ship (run ops w))"
    using assms by (rule run_wellFormed)
  then show "0 \<le> energy (ship (run ops w))"
    by (simp add: energyWellFormed_def)
qed

text \<open>C3, amended, on a new game: a boost frame, a railgun shot, a roll and a shield frame.\<close>

theorem energy_within_bounds_witness:
  "energyWellFormed (ship newGame)
   \<and> list_all testsBeforeSpending
       [ShipFrame 100 BOOST 0, Fire 300, ShipFrame 16 BARREL_ROLL 316, ShipFrame 16 SHIELD 332]
   \<and> list_all forwardTime
       [ShipFrame 100 BOOST 0, Fire 300, ShipFrame 16 BARREL_ROLL 316, ShipFrame 16 SHIELD 332]
   \<and> 0 \<le> energy (ship (run
       [ShipFrame 100 BOOST 0, Fire 300, ShipFrame 16 BARREL_ROLL 316, ShipFrame 16 SHIELD 332]
       newGame))
   \<and> energy (ship (run
       [ShipFrame 100 BOOST 0, Fire 300, ShipFrame 16 BARREL_ROLL 316, ShipFrame 16 SHIELD 332]
       newGame))
     \<le> maxEnergy (ship (run
       [ShipFrame 100 BOOST 0, Fire 300, ShipFrame 16 BARREL_ROLL 316, ShipFrame 16 SHIELD 332]
       newGame))"
proof -
  let ?ops = "[ShipFrame 100 BOOST 0, Fire 300, ShipFrame 16 BARREL_ROLL 316, ShipFrame 16 SHIELD 332]"
  have wf: "energyWellFormed (ship newGame)"
    by (simp add: energyWellFormed_def newGame_def newWeapons_def newShip_def)
  have t: "\<forall>op \<in> set ?ops. testsBeforeSpending op" by simp
  have f: "\<forall>op \<in> set ?ops. forwardTime op" by simp
  from energy_within_bounds [OF wf, of ?ops] t f
  have "0 \<le> energy (ship (run ?ops newGame))"
    and "energy (ship (run ?ops newGame)) \<le> maxEnergy (ship (run ?ops newGame))"
    by blast+
  then show ?thesis using wf by simp
qed

section \<open>Properties of the weapons\<close>

lemma firePrimary_refuses:
  "(case lastFired w (currentWeapon w) of
      None \<Rightarrow> False
    | Some lf \<Rightarrow> now - lf < cooldown (currentWeapon w))
   \<or> energy (ship w) < energyCost (currentWeapon w) \<Longrightarrow>
   firePrimary now w = (w, False)"
  by (auto simp: firePrimary_def Let_def)

lemma firePrimary_railgun:
  assumes "currentWeapon w = railgun" "lastFired w railgun = Some lf" "200 \<le> now - lf"
    and "5 \<le> energy (ship w)"
  shows "snd (firePrimary now w) = True"
    and "energy (ship (fst (firePrimary now w))) = energy (ship w) - 5"
    and "lastFired (fst (firePrimary now w)) railgun = Some now"
    and "length (projectiles (fst (firePrimary now w))) = Suc (length (projectiles w))"
    and "harpoons (fst (firePrimary now w)) = harpoons w"
  using assms by (simp_all add: firePrimary_def fireRailgun_def Let_def)

lemma firePrimary_harpoon:
  assumes "currentWeapon w = harpoon" "lastFired w harpoon = Some lf" "3000 \<le> now - lf"
    and "30 \<le> energy (ship w)"
  shows "snd (firePrimary now w) = True"
    and "energy (ship (fst (firePrimary now w))) = energy (ship w) - 30"
    and "lastFired (fst (firePrimary now w)) harpoon = Some now"
    and "length (harpoons (fst (firePrimary now w))) = Suc (length (harpoons w))"
    and "projectiles (fst (firePrimary now w)) = projectiles w"
  using assms by (simp_all add: firePrimary_def fireHarpoon_def Let_def)

text \<open>
  C6: the claim asks that a successful \<open>firePrimary\<close> spawns the projectile of the selected
  weapon, whichever weapon is selected. With the laser selected (key 2 of the game) the
  cooldown and energy tests pass, the \<open>switch\<close> has no case for \<open>'laser'\<close>, and the call
  still takes the 15 energy, writes the cooldown clock and returns success: no projectile,
  no harpoon and no beam exists afterwards.
\<close>

theorem firePrimary_laser_spawns_nothing:
  "snd (firePrimary 1000 (selectWeapon laser (newWeapons newShip))) = True
   \<and> energy (ship (fst (firePrimary 1000 (selectWeapon laser (newWeapons newShip))))) = 85
   \<and> lastFired (fst (firePrimary 1000 (selectWeapon laser (newWeapons newShip)))) laser = Some 1000
   \<and> projectiles (fst (firePrimary 1000 (selectWeapon laser (newWeapons newShip)))) = []
   \<and> harpoons (fst (firePrimary 1000 (selectWeapon laser (newWeapons newShip)))) = []
   \<and> laserActive (fst (firePrimary 1000 (selectWeapon laser (newWeapons newShip)))) = False
   \<and> activeBeam (fst (firePrimary 1000 (selectWeapon laser (newWeapons newShip)))) = False"
  by (simp add: firePrimary_def selectWeapon_def newWeapons_def newShip_def Let_def)

text \<open>
  C7: the claim asks that a harpoon whose enemy has been killed and removed from the roster
  notices this at its next update, before any use, and lets go. The harpoon holds the
  wrapper object \<open>getEnemies()\<close> made in the frame of the hit; its guard
  \<open>data.attachedTo && data.attachedTo.mesh\<close> reads that wrapper only, never the roster. A
  harpoon fired at clock 5000 hits the one enemy of the roster (mesh at \<open>(0, 0, -130)\<close>) and
  attaches, which costs the enemy 10 health; another weapon takes the remaining 30 in the
  same frame. \<open>WaveManager.update\<close> then moves the enemy a last time, to whatever position
  \<open>newPosition 0\<close> its AI computes, and removes it, so \<open>getEnemies()\<close> is empty in the next
  frame. The harpoon update of that frame keeps the harpoon attached to the old wrapper,
  copies the position of the dead enemy's mesh and moves that mesh 10 units towards the ship.
\<close>

theorem harpoon_keeps_pulling_dead_enemy:
  "let m = spawnEnemy COWARD (newWaveManager (rolls_const 0));
       a = emptyArena\<lparr>meshPosition := (meshPosition emptyArena)(0 := (0, 0, - 130))\<rparr>;
       w = fst (firePrimary 5000 (selectWeapon harpoon (newWeapons newShip)));
       wa1 = updateHarpoons (1 / 10) 5100 (getEnemies m) (w, a);
       hurt = damageEnemy 0 30 (damageEnemy 0 10 m);
       a1 = updateMeshes newPosition 100 hurt (snd wa1);
       m' = update 100 hurt;
       wa2 = updateHarpoons (1 / 10) 5200 (getEnemies m') (fst wa1, a1)
   in getEnemies m = [\<lparr>mesh = Some 0, hitRadius = 30, enemyOf = 0\<rparr>]
      \<and> map attachedTo (harpoons (fst wa1)) = [Some \<lparr>mesh = Some 0, hitRadius = 30, enemyOf = 0\<rparr>]
      \<and> hits (snd wa1) = [(0, 10)]
      \<and> meshPosition (snd wa1) 0 = (0, 0, - 130)
      \<and> meshPosition a1 0 = newPosition 0
      \<and> activeEnemies m' = [] \<and> getEnemies m' = []
      \<and> map attached (harpoons (fst wa2)) = [True]
      \<and> map attachedTo (harpoons (fst wa2)) = [Some \<lparr>mesh = Some 0, hitRadius = 30, enemyOf = 0\<rparr>]
      \<and> map hPosition (harpoons (fst wa2)) = [newPosition 0]
      \<and> meshPosition (snd wa2) 0 =
          vadd (newPosition 0)
            (vscale (vnormalize (vsub (position newShip) (newPosition 0))) 10)"
  by (simp add: Let_def spawnEnemy_def newWaveManager_def getEnemies_def emptyArena_def
      firePrimary_def selectWeapon_def newWeapons_def newShip_def fireHarpoon_def
      updateHarpoons_def harpoonStep_def vadd_def vsub_def vscale_def vdot_def vlength_def
      vnormalize_def distanceTo_def update_def spawnStep_def enemyStep_def completionStep_def
      damageEnemy_def enemyTakeDamage_def updateMeshes_def)

lemma sqrt_of_fled_distance: "sqrt (277729 / 16) = 527 / 4"
  by (rule real_sqrt_unique) (simp_all add: power2_eq_square)

text \<open>
  The same two frames with the position a Coward at rest at \<open>(0, 0, -130)\<close> is moved to by
  its last \<open>Enemy.update\<close> of 100 ms: it flees from the ship at the origin, its velocity
  goes 5 percent of the way to \<open>(0, 0, -350)\<close>, and it ends at \<open>(0, 0, -131.75)\<close>. The
  harpoon goes there and drags the dead enemy's mesh to \<open>(0, 0, -121.75)\<close>.
\<close>

lemma harpoon_follows_fled_coward:
  "let m = spawnEnemy COWARD (newWaveManager (rolls_const 0));
       a = emptyArena\<lparr>meshPosition := (meshPosition emptyArena)(0 := (0, 0, - 130))\<rparr>;
       w = fst (firePrimary 5000 (selectWeapon harpoon (newWeapons newShip)));
       wa1 = updateHarpoons (1 / 10) 5100 (getEnemies m) (w, a);
       hurt = damageEnemy 0 30 (damageEnemy 0 10 m);
       a1 = updateMeshes (\<lambda>i. (0, 0, - (527 / 4))) 100 hurt (snd wa1);
       m' = update 100 hurt;
       wa2 = updateHarpoons (1 / 10) 5200 (getEnemies m') (fst wa1, a1)
   in getEnemies m' = []
      \<and> map attached (harpoons (fst wa2)) = [True]
      \<and> map hPosition (harpoons (fst wa2)) = [(0, 0, - (527 / 4))]
      \<and> meshPosition (snd wa2) 0 = (0, 0, - (487 / 4))"
  by (simp add: Let_def spawnEnemy_def newWaveManager_def getEnemies_def emptyArena_def
      firePrimary_def selectWeapon_def newWeapons_def newShip_def fireHarpoon_def
      updateHarpoons_def harpoonStep_def vadd_def vsub_def vscale_def vdot_def vlength_def
      vnormalize_def distanceTo_def update_def spawnStep_def enemyStep_def completionStep_def
      damageEnemy_def enemyTakeDamage_def updateMeshes_def sqrt_of_fled_distance)

end
